theory Spec2Isabelle
  imports Main "HOL-Library.Sublist"
begin

section \<open>The COLMAP processing API (src/api/api.py)\<close>

text \<open>
  The module keeps one process-wide dictionary, \<open>PROCESSING_JOBS\<close>, from job identifier
  to job record. An endpoint stages the input, stores a queued record and schedules a
  background task; the task runs the external script and stores the terminal record.
  The model passes the mutable state explicitly (the record \<open>world\<close>), returns every
  raised exception as a result on the left of a sum, and takes what the operating system
  and the libraries answer (is this path a directory, does the copy fail, what does the
  process return) from a record of oracles, \<open>os_env\<close>.
\<close>

subsection \<open>Data\<close>

text \<open>The exceptions the module can meet. \<open>OtherException cls txt\<close> is any other subclass
  of Exception, with its class name and the text \<open>str(e)\<close> gives.\<close>

datatype error =
    FileNotFoundError string
  | NotADirectoryError string
  | HTTPException nat string
  | KeyError string
  | NameError string
  | OtherException string string

text \<open>\<open>str(e)\<close>. For FileNotFoundError and NotADirectoryError the argument is the file
  name, quoted as repr quotes a plain path.\<close>

fun str_exn :: "error \<Rightarrow> string" where
  "str_exn (FileNotFoundError p) =
     ''[Errno 2] No such file or directory: '' @ [CHR 0x27] @ p @ [CHR 0x27]"
| "str_exn (NotADirectoryError p) =
     ''[Errno 20] Not a directory: '' @ [CHR 0x27] @ p @ [CHR 0x27]"
| "str_exn (HTTPException c d) = d"
| "str_exn (KeyError k) = [CHR 0x27] @ k @ [CHR 0x27]"
| "str_exn (NameError n) = ''name '' @ [CHR 0x27] @ n @ [CHR 0x27] @ '' is not defined''"
| "str_exn (OtherException cls txt) = txt"

text \<open>The payload of \<open>config\<close>: a dictionary parsed from the request body.\<close>

datatype json =
    JNull
  | JBool bool
  | JInt int
  | JStr string
  | JArr "json list"
  | JObj "(string \<times> json) list"

type_synonym pydict = "(string \<times> json) list"

text \<open>class ProcessingRequest(BaseModel)\<close>

record ProcessingRequest =
  input_path :: string
  config :: "pydict option"
  mode :: string
  gpu :: string
  render_pipeline :: string
  scale :: string

text \<open>class JobStatus(BaseModel)\<close>

record JobStatus =
  js_job_id :: string
  js_status :: string
  js_message :: "string option"
  js_output_path :: "string option"

text \<open>The dictionary stored in \<open>PROCESSING_JOBS\<close> under a job identifier.\<close>

record job =
  status :: string
  message :: string
  output_path :: "string option"

text \<open>The dictionary \<open>job_params\<close> that start_processing hands to the background task.\<close>

record params =
  p_job_id :: string
  p_input_path :: string
  p_config :: "pydict option"
  p_mode :: string
  p_gpu :: string
  p_render_pipeline :: string
  p_scale :: string

text \<open>What subprocess.run returns with capture_output and text set.\<close>

record CompletedProcess =
  returncode :: int
  stdout :: string
  stderr :: string

text \<open>An uploaded file, as the upload endpoints read it.\<close>

record upload =
  filename :: string
  body :: string

datatype node = File | Dir | Special

text \<open>The effects on the world outside the interpreter, in the order they happen.\<close>

datatype event =
    Makedirs string
  | Copytree string string
  | Copy string string
  | OpenW string
  | Write string string
  | Run "string list"

text \<open>The answers of the operating system and of the libraries. A \<open>Some e\<close> or \<open>Inl e\<close>
  is the call raising the exception \<open>e\<close>. \<open>stat_path env p\<close> is what the system finds at the
  path \<open>p\<close>: \<open>Inr\<close> the kind of file that exists there, or, when the path does not exist
  (it cannot be resolved), \<open>Inl\<close> the exception that opening it raises: FileNotFoundError for
  an absent entry, NotADirectoryError for a path below a regular file, another OSError for
  an over-long name, and so on.\<close>

record os_env =
  stat_path :: "string \<Rightarrow> error + node"
  makedirs_raises :: "string \<Rightarrow> error option"
  copytree_raises :: "string \<Rightarrow> string \<Rightarrow> error option"
  copy_raises :: "string \<Rightarrow> string \<Rightarrow> error option"
  open_raises :: "string \<Rightarrow> error option"
  json_dump :: "pydict \<Rightarrow> error + string"
  subprocess_run :: "string list \<Rightarrow> error + CompletedProcess"

text \<open>The state: the module's dictionary, the background tasks that were added and have
  not run yet, and the trace of effects.\<close>

record world =
  PROCESSING_JOBS :: "string \<rightharpoonup> job"
  background_tasks :: "params list"
  events :: "event list"

definition init_world :: world where
  "init_world = \<lparr>PROCESSING_JOBS = Map.empty, background_tasks = [], events = []\<rparr>"

fun is_run :: "event \<Rightarrow> bool" where
  "is_run (Run cmd) = True"
| "is_run e = False"

definition emit :: "event \<Rightarrow> world \<Rightarrow> world" where
  "emit e w = w\<lparr>events := events w @ [e]\<rparr>"

definition store_job :: "string \<Rightarrow> job \<Rightarrow> world \<Rightarrow> world" where
  "store_job jid r w = w\<lparr>PROCESSING_JOBS := (PROCESSING_JOBS w)(jid \<mapsto> r)\<rparr>"

subsection \<open>Paths\<close>

text \<open>posixpath.join on two arguments: an absolute second argument replaces the first.\<close>

definition path_join :: "string \<Rightarrow> string \<Rightarrow> string" where
  "path_join a b =
     (if b \<noteq> [] \<and> hd b = CHR ''/'' then b
      else if a = [] \<or> last a = CHR ''/'' then a @ b
      else a @ ''/'' @ b)"

definition WORKSPACE_BASE :: string where
  "WORKSPACE_BASE = ''/workspace''"

definition INGEST_DIR :: string where
  "INGEST_DIR = path_join WORKSPACE_BASE ''ingest''"

definition COLMAP_WORKSPACE :: string where
  "COLMAP_WORKSPACE = path_join WORKSPACE_BASE ''colmap_workspace''"

definition NERFSTUDIO_OUTPUT :: string where
  "NERFSTUDIO_OUTPUT = path_join WORKSPACE_BASE ''nerfstudio_dataset''"

text \<open>The four paths the module derives from a job identifier: the joins of lines 142
  (and 104, 126), 65, 66 (and 83) and 55. The functions below use them by these names.\<close>

definition input_dir :: "string \<Rightarrow> string" where
  "input_dir jid = path_join INGEST_DIR jid"

definition workspace_dir :: "string \<Rightarrow> string" where
  "workspace_dir jid = path_join COLMAP_WORKSPACE jid"

definition output_dir :: "string \<Rightarrow> string" where
  "output_dir jid = path_join NERFSTUDIO_OUTPUT jid"

definition config_path :: "string \<Rightarrow> string" where
  "config_path jid = path_join COLMAP_WORKSPACE (''config_'' @ jid @ ''.json'')"

definition job_paths :: "string \<Rightarrow> string list" where
  "job_paths jid = [input_dir jid, workspace_dir jid, output_dir jid, config_path jid]"

text \<open>\<open>lies_under p q\<close>: the path \<open>p\<close> is below the directory \<open>q\<close>.\<close>

definition lies_under :: "string \<Rightarrow> string \<Rightarrow> bool" where
  "lies_under p q = prefix (q @ ''/'') p"

text \<open>The directory part of a path: everything before its last slash.\<close>

definition dirname :: "string \<Rightarrow> string" where
  "dirname p = rev (tl (dropWhile (\<lambda>c. c \<noteq> CHR ''/'') (rev p)))"

text \<open>generate_job_id returns \<open>str(uuid.uuid4())\<close>: 36 characters, lower-case hexadecimal
  digits in groups of 8, 4, 4, 4 and 12 separated by hyphens, the version digit 4 and a
  variant digit among 8, 9, a, b.\<close>

definition is_hex :: "char \<Rightarrow> bool" where
  "is_hex c = (c \<in> set ''0123456789abcdef'')"

text \<open>The format, position by position: \<open>x\<close> a hexadecimal digit, \<open>y\<close> a variant
  digit, any other character itself.\<close>

definition uuid4_mask :: string where
  "uuid4_mask = ''xxxxxxxx-xxxx-4xxx-yxxx-xxxxxxxxxxxx''"

definition uuid4_char :: "char \<Rightarrow> char \<Rightarrow> bool" where
  "uuid4_char m c =
     (if m = CHR ''x'' then is_hex c
      else if m = CHR ''y'' then c \<in> set ''89ab''
      else c = m)"

definition uuid4_str :: "string \<Rightarrow> bool" where
  "uuid4_str s = list_all2 uuid4_char uuid4_mask s"

subsection \<open>Library calls\<close>

definition os_path_isdir :: "os_env \<Rightarrow> string \<Rightarrow> bool" where
  "os_path_isdir env p = (stat_path env p = Inr Dir)"

text \<open>shutil.copy opens the source for reading: for a source that does not exist the
  exception is the one the system raises for that path; for a source that exists, a
  failure of the copy is the oracle's.\<close>

definition shutil_copy :: "os_env \<Rightarrow> string \<Rightarrow> string \<Rightarrow> error option" where
  "shutil_copy env src dst =
     (case stat_path env src of
        Inl e \<Rightarrow> Some e
      | Inr k \<Rightarrow> copy_raises env src dst)"

subsection \<open>run_colmap_script\<close>

text \<open>Lines 53 to 58. The test \<open>params.get("config")\<close> is false for None and for the
  empty dictionary. Opening the file creates it; json.dump then writes the text.\<close>

definition write_config :: "os_env \<Rightarrow> params \<Rightarrow> world \<Rightarrow> (error + string option) \<times> world" where
  "write_config env p w =
     (case p_config p of
        None \<Rightarrow> (Inr None, w)
      | Some c \<Rightarrow>
          if c = [] then (Inr None, w)
          else
            let cp = config_path (p_job_id p) in
            (case open_raises env cp of
               Some e \<Rightarrow> (Inl e, w)
             | None \<Rightarrow>
                 let w1 = emit (OpenW cp) w in
                 (case json_dump env c of
                    Inl e \<Rightarrow> (Inl e, w1)
                  | Inr txt \<Rightarrow> (Inr (Some cp), emit (Write cp txt) w1))))"

text \<open>Lines 61 to 73.\<close>

definition build_cmd :: "params \<Rightarrow> string option \<Rightarrow> string list" where
  "build_cmd p config_file =
     [''/workspace/colmap.sh'',
      (if p_mode p = ''batch'' then ''--batch'' else ''--daemon''),
      ''--ingest-dir'', p_input_path p,
      ''--colmap-workspace'', workspace_dir (p_job_id p),
      ''--nerfstudio-output'', output_dir (p_job_id p),
      ''--gpu'', p_gpu p,
      ''--render-pipeline'', p_render_pipeline p,
      ''--scale'', p_scale p]
     @ (case config_file of None \<Rightarrow> [] | Some cf \<Rightarrow> [''--config'', cf])"

text \<open>The body of the try statement, lines 52 to 90.\<close>

definition run_colmap_script_try :: "os_env \<Rightarrow> params \<Rightarrow> world \<Rightarrow> (error + unit) \<times> world" where
  "run_colmap_script_try env p w =
     (case write_config env p w of
        (Inl e, w1) \<Rightarrow> (Inl e, w1)
      | (Inr config_file, w1) \<Rightarrow>
          let cmd = build_cmd p config_file in
          (case subprocess_run env cmd of
             Inl e \<Rightarrow> (Inl e, w1)
           | Inr result \<Rightarrow>
               let w2 = emit (Run cmd) w1 in
               if returncode result = 0 then
                 (Inr (), store_job (p_job_id p)
                    \<lparr>status = ''completed'',
                     message = ''Processing completed successfully'',
                     output_path = Some (output_dir (p_job_id p))\<rparr> w2)
               else
                 (Inr (), store_job (p_job_id p)
                    \<lparr>status = ''failed'',
                     message = stderr result,
                     output_path = None\<rparr> w2)))"

text \<open>The whole function: the except clause of lines 91 to 96 catches every Exception.\<close>

definition run_colmap_script :: "os_env \<Rightarrow> params \<Rightarrow> world \<Rightarrow> (error + unit) \<times> world" where
  "run_colmap_script env p w =
     (case run_colmap_script_try env p w of
        (Inl e, w1) \<Rightarrow>
          (Inr (), store_job (p_job_id p)
             \<lparr>status = ''failed'', message = str_exn e, output_path = None\<rparr> w1)
      | (Inr u, w1) \<Rightarrow> (Inr u, w1))"

subsection \<open>The worker threads\<close>

text \<open>run_colmap_script is a plain function, so the framework runs each added task once in
  a worker thread, after the response of the request that added it; tasks of different
  requests finish in any order. \<open>execute env i\<close> is the \<open>i\<close>-th pending task running to its
  end. The endpoints are coroutines without an await and run one at a time, but the worker
  threads run beside them: \<open>workers ts\<close> is what the threads finish while a coroutine is
  between two of its steps.\<close>

definition execute :: "os_env \<Rightarrow> nat \<Rightarrow> world \<Rightarrow> world" where
  "execute env i w =
     (if i < length (background_tasks w)
      then snd (run_colmap_script env (background_tasks w ! i)
                  (w\<lparr>background_tasks :=
                       take i (background_tasks w) @ drop (Suc i) (background_tasks w)\<rparr>))
      else w)"

fun workers :: "(os_env \<times> nat) list \<Rightarrow> world \<Rightarrow> world" where
  "workers [] w = w"
| "workers ((env, i) # ts) w = workers ts (execute env i w)"

subsection \<open>start_processing, get_job_status, list_jobs\<close>

text \<open>Lines 146 to 149: what the copy raises, and the effect it has when it raises
  nothing.\<close>

definition stage_input :: "os_env \<Rightarrow> string \<Rightarrow> string \<Rightarrow> error option \<times> event" where
  "stage_input env src dst =
     (if os_path_isdir env src
      then (copytree_raises env src dst, Copytree src dst)
      else (shutil_copy env src dst, Copy src dst))"

text \<open>Lines 139 to 176. \<open>jid\<close> is what generate_job_id returned. The returned dictionary
  has no key output_path; the response model fills it with None.\<close>

definition start_processing ::
  "os_env \<Rightarrow> string \<Rightarrow> ProcessingRequest \<Rightarrow> world \<Rightarrow> (error + JobStatus) \<times> world" where
  "start_processing env jid request w =
     (let idir = input_dir jid in
      case makedirs_raises env idir of
        Some e \<Rightarrow> (Inl e, w)
      | None \<Rightarrow>
          let w1 = emit (Makedirs idir) w;
              staged = stage_input env (input_path request) idir
          in
          (case fst staged of
             Some e \<Rightarrow> (Inl e, w1)
           | None \<Rightarrow>
               let w2 = emit (snd staged) w1;
                   job_params =
                     \<lparr>p_job_id = jid, p_input_path = idir, p_config = config request,
                      p_mode = mode request, p_gpu = gpu request,
                      p_render_pipeline = render_pipeline request,
                      p_scale = scale request\<rparr>;
                   w3 = store_job jid
                     \<lparr>status = ''queued'', message = ''Job is queued for processing'',
                      output_path = None\<rparr> w2;
                   w4 = w3\<lparr>background_tasks := background_tasks w3 @ [job_params]\<rparr>
               in
               (case PROCESSING_JOBS w4 jid of
                  None \<Rightarrow> (Inl (KeyError jid), w4)
                | Some r \<Rightarrow>
                    (Inr \<lparr>js_job_id = jid, js_status = status r,
                          js_message = Some (message r), js_output_path = None\<rparr>, w4))))"

text \<open>Lines 179 to 189. The function looks the identifier up four times: the membership
  test of line 181 and the three subscripts of lines 186, 187 and 188, in this order.
  Nothing locks the dictionary, so the worker threads may store records between two
  lookups: \<open>b1\<close>, \<open>b2\<close> and \<open>b3\<close> are the tasks that finish before the first, the second and
  the third subscript. A subscript of a missing key raises KeyError.\<close>

definition get_job_status ::
  "string \<Rightarrow> (os_env \<times> nat) list \<Rightarrow> (os_env \<times> nat) list \<Rightarrow> (os_env \<times> nat) list \<Rightarrow> world
     \<Rightarrow> (error + JobStatus) \<times> world" where
  "get_job_status jid b1 b2 b3 w =
     (if PROCESSING_JOBS w jid = None
      then (Inl (HTTPException 404 ''Job not found''), w)
      else
        let w1 = workers b1 w in
        (case PROCESSING_JOBS w1 jid of
           None \<Rightarrow> (Inl (KeyError jid), w1)
         | Some r1 \<Rightarrow>
             let w2 = workers b2 w1 in
             (case PROCESSING_JOBS w2 jid of
                None \<Rightarrow> (Inl (KeyError jid), w2)
              | Some r2 \<Rightarrow>
                  let w3 = workers b3 w2 in
                  (case PROCESSING_JOBS w3 jid of
                     None \<Rightarrow> (Inl (KeyError jid), w3)
                   | Some r3 \<Rightarrow>
                       (Inr \<lparr>js_job_id = jid, js_status = status r1,
                             js_message = Some (message r2),
                             js_output_path = output_path r3\<rparr>, w3)))))"

text \<open>Lines 192 to 194.\<close>

definition list_jobs :: "world \<Rightarrow> (error + (string \<rightharpoonup> job)) \<times> world" where
  "list_jobs w = (Inr (PROCESSING_JOBS w), w)"

subsection \<open>The upload endpoints\<close>

text \<open>The names bound in the module: its imports (lines 2 to 11), its assignments, classes
  and functions, and the builtins the module uses.\<close>

definition module_names :: "string list" where
  "module_names =
     [''FastAPI'', ''HTTPException'', ''BackgroundTasks'', ''CORSMiddleware'', ''BaseModel'',
      ''subprocess'', ''os'', ''shutil'', ''uuid'', ''Optional'', ''logging'', ''json'',
      ''app'', ''WORKSPACE_BASE'', ''INGEST_DIR'', ''COLMAP_WORKSPACE'', ''NERFSTUDIO_OUTPUT'',
      ''PROCESSING_JOBS'', ''ProcessingRequest'', ''JobStatus'', ''generate_job_id'',
      ''run_colmap_script'', ''upload_files'', ''process_uploaded_files'', ''start_processing'',
      ''get_job_status'', ''list_jobs'']"

definition builtin_names :: "string list" where
  "builtin_names = [''str'', ''dict'', ''list'', ''Exception'', ''None'']"

text \<open>Reading a global name: a name bound neither in the module nor among the builtins
  raises NameError.\<close>

definition load_name :: "string \<Rightarrow> error option" where
  "load_name n =
     (if n \<in> set module_names \<or> n \<in> set builtin_names then None else Some (NameError n))"

fun first_raise :: "error option list \<Rightarrow> error option" where
  "first_raise [] = None"
| "first_raise (None # rs) = first_raise rs"
| "first_raise (Some e # rs) = Some e"

text \<open>The names the two signatures read, defaults first and annotations after them
  (lines 101 and 116 to 122). Python reads them when it reaches the def statement; the
  model reads them in front of the body, so that the result of an endpoint is the first
  exception on the way to its response.\<close>

definition upload_files_signature :: "error option" where
  "upload_files_signature = first_raise (map load_name [''File'', ''list'', ''UploadFile''])"

definition process_uploaded_files_signature :: "error option" where
  "process_uploaded_files_signature =
     first_raise (map load_name
       [''File'', ''Form'', ''Form'', ''Form'', ''Form'', ''Form'',
        ''BackgroundTasks'', ''list'', ''UploadFile'', ''str'', ''str'', ''str'', ''str'', ''str''])"

text \<open>The loop of lines 107 to 110 and 130 to 133.\<close>

fun save_files :: "os_env \<Rightarrow> string \<Rightarrow> upload list \<Rightarrow> world \<Rightarrow> (error + unit) \<times> world" where
  "save_files env upload_dir [] w = (Inr (), w)"
| "save_files env upload_dir (f # fs) w =
     (let file_path = path_join upload_dir (filename f) in
      case load_name ''aiofiles'' of
        Some e \<Rightarrow> (Inl e, w)
      | None \<Rightarrow>
          (case open_raises env file_path of
             Some e \<Rightarrow> (Inl e, w)
           | None \<Rightarrow>
               save_files env upload_dir fs
                 (emit (Write file_path (body f)) (emit (OpenW file_path) w))))"

text \<open>Lines 101 to 112. The result is the dictionary with job_id and message.\<close>

definition upload_files ::
  "os_env \<Rightarrow> string \<Rightarrow> upload list \<Rightarrow> world \<Rightarrow> (error + string \<times> string) \<times> world" where
  "upload_files env jid files w =
     (case upload_files_signature of
        Some e \<Rightarrow> (Inl e, w)
      | None \<Rightarrow>
          let upload_dir = input_dir jid in
          (case makedirs_raises env upload_dir of
             Some e \<Rightarrow> (Inl e, w)
           | None \<Rightarrow>
               (case save_files env upload_dir files (emit (Makedirs upload_dir) w) of
                  (Inl e, w1) \<Rightarrow> (Inl e, w1)
                | (Inr u, w1) \<Rightarrow> (Inr (jid, ''Files uploaded successfully''), w1))))"

text \<open>The form fields of process_uploaded_files; its body reads none of them.\<close>

record upload_form =
  f_config :: "string option"
  f_mode :: string
  f_gpu :: string
  f_render_pipeline :: string
  f_scale :: string

text \<open>Lines 115 to 133. The body ends after the loop: the function returns None.\<close>

definition process_uploaded_files ::
  "os_env \<Rightarrow> string \<Rightarrow> upload list \<Rightarrow> upload_form \<Rightarrow> world
     \<Rightarrow> (error + JobStatus option) \<times> world" where
  "process_uploaded_files env jid files form w =
     (case process_uploaded_files_signature of
        Some e \<Rightarrow> (Inl e, w)
      | None \<Rightarrow>
          let upload_dir = input_dir jid in
          (case makedirs_raises env upload_dir of
             Some e \<Rightarrow> (Inl e, w)
           | None \<Rightarrow>
               (case save_files env upload_dir files (emit (Makedirs upload_dir) w) of
                  (Inl e, w1) \<Rightarrow> (Inl e, w1)
                | (Inr u, w1) \<Rightarrow> (Inr None, w1))))"

subsection \<open>The running service\<close>

text \<open>What can happen to the state: a request to one of the endpoints, or one of the
  pending background tasks running to its end. \<open>Submit env jid request\<close> is a call of
  start_processing in which generate_job_id returned \<open>jid\<close>; \<open>Status jid b1 b2 b3\<close> is
  a call of get_job_status during which the worker threads finish the tasks \<open>b1\<close>, \<open>b2\<close>
  and \<open>b3\<close>.\<close>

datatype action =
    Submit os_env string ProcessingRequest
  | Execute os_env nat
  | Status string "(os_env \<times> nat) list" "(os_env \<times> nat) list" "(os_env \<times> nat) list"
  | Listing
  | Upload os_env string "upload list"
  | ProcessUpload os_env string "upload list" upload_form

fun step :: "action \<Rightarrow> world \<Rightarrow> world" where
  "step (Submit env jid request) w = snd (start_processing env jid request w)"
| "step (Execute env i) w = execute env i w"
| "step (Status jid b1 b2 b3) w = snd (get_job_status jid b1 b2 b3 w)"
| "step Listing w = snd (list_jobs w)"
| "step (Upload env jid files) w = snd (upload_files env jid files w)"
| "step (ProcessUpload env jid files form) w = snd (process_uploaded_files env jid files form w)"

fun run_actions :: "world \<Rightarrow> action list \<Rightarrow> world" where
  "run_actions w [] = w"
| "run_actions w (a # as) = run_actions (step a w) as"

text \<open>The identifiers generate_job_id returns are new: no submission of the run draws an
  identifier that is in the dictionary at that moment.\<close>

definition fresh_for :: "world \<Rightarrow> action \<Rightarrow> bool" where
  "fresh_for w a =
     (case a of Submit env jid request \<Rightarrow> PROCESSING_JOBS w jid = None | _ \<Rightarrow> True)"

fun fresh_ids :: "world \<Rightarrow> action list \<Rightarrow> bool" where
  "fresh_ids w [] = True"
| "fresh_ids w (a # as) = (fresh_for w a \<and> fresh_ids (step a w) as)"

text \<open>The identifiers the submissions of a run drew.\<close>

fun submitted :: "action list \<Rightarrow> string list" where
  "submitted [] = []"
| "submitted (Submit env jid request # as) = jid # submitted as"
| "submitted (a # as) = submitted as"

definition terminal :: "string \<Rightarrow> bool" where
  "terminal st = (st = ''completed'' \<or> st = ''failed'')"

subsection \<open>Predicates of the proofs\<close>

text \<open>The record start_processing stores.\<close>

definition queued_job :: job where
  "queued_job =
     \<lparr>status = ''queued'', message = ''Job is queued for processing'', output_path = None\<rparr>"

text \<open>A record has an output path exactly when it is completed.\<close>

definition output_ok :: "job \<Rightarrow> bool" where
  "output_ok r = ((output_path r \<noteq> None) = (status r = ''completed''))"

text \<open>The pending tasks belong to different jobs, each of them still queued.\<close>

definition pending_ok :: "world \<Rightarrow> bool" where
  "pending_ok w =
     (distinct (map p_job_id (background_tasks w)) \<and>
      list_all (\<lambda>p. case PROCESSING_JOBS w (p_job_id p) of
                       None \<Rightarrow> False
                     | Some r \<Rightarrow> status r = ''queued'')
               (background_tasks w))"

text \<open>Two paths are apart: they differ and neither is below the other.\<close>

definition apart :: "string \<Rightarrow> string \<Rightarrow> bool" where
  "apart p q = (p \<noteq> q \<and> \<not> lies_under p q \<and> \<not> lies_under q p)"

subsection \<open>Concrete inputs\<close>

text \<open>An environment with a directory /data/scene and a file /data/a.png and nothing
  else, in which every call succeeds and the script exits with 0, and
  variants of it: the script exits with 1, the script cannot be launched, the config file
  cannot be opened, the ingest directory cannot be created.\<close>

definition env_ok :: os_env where
  "env_ok =
     \<lparr>stat_path = (\<lambda>p. if p = ''/data/scene'' then Inr Dir
                        else if p = ''/data/a.png'' then Inr File
                        else if p = ''/data/a.png/x'' then Inl (NotADirectoryError p)
                        else Inl (FileNotFoundError p)),
      makedirs_raises = (\<lambda>p. None),
      copytree_raises = (\<lambda>s d. None),
      copy_raises = (\<lambda>s d. None),
      open_raises = (\<lambda>p. None),
      json_dump = (\<lambda>c. Inr (''{'' @ [CHR 0x22] @ ''k'' @ [CHR 0x22] @ '': 1}'')),
      subprocess_run = (\<lambda>cmd. Inr \<lparr>returncode = 0, stdout = ''done'', stderr = []\<rparr>)\<rparr>"

definition env_exit1 :: os_env where
  "env_exit1 =
     env_ok\<lparr>subprocess_run :=
       (\<lambda>cmd. Inr \<lparr>returncode = 1, stdout = [], stderr = ''no images found''\<rparr>)\<rparr>"

definition env_nolaunch :: os_env where
  "env_nolaunch =
     env_ok\<lparr>subprocess_run := (\<lambda>cmd. Inl (FileNotFoundError ''/workspace/colmap.sh''))\<rparr>"

definition env_noopen :: os_env where
  "env_noopen =
     env_ok\<lparr>open_raises := (\<lambda>p. Some (OtherException ''PermissionError'' ''denied''))\<rparr>"

definition env_nomkdir :: os_env where
  "env_nomkdir =
     env_ok\<lparr>makedirs_raises := (\<lambda>p. Some (OtherException ''PermissionError'' ''denied''))\<rparr>"

definition id_a :: string where
  "id_a = ''0f8fad5b-d9cb-469f-a165-70867728950e''"

definition id_b :: string where
  "id_b = ''7c9e6679-7425-40de-944b-e07fc1f90ae7''"

definition req_dir :: ProcessingRequest where
  "req_dir =
     \<lparr>input_path = ''/data/scene'', config = Some [(''k'', JInt 1)], mode = ''batch'',
      gpu = ''auto'', render_pipeline = ''default'', scale = ''default''\<rparr>"

definition req_file :: ProcessingRequest where
  "req_file = req_dir\<lparr>input_path := ''/data/a.png'', config := None\<rparr>"

definition req_missing :: ProcessingRequest where
  "req_missing = req_dir\<lparr>input_path := ''/data/nothing''\<rparr>"

definition req_notdir :: ProcessingRequest where
  "req_notdir = req_dir\<lparr>input_path := ''/data/a.png/x''\<rparr>"

definition done_job :: job where
  "done_job =
     \<lparr>status = ''completed'', message = ''Processing completed successfully'',
      output_path = Some ''/workspace/nerfstudio_dataset/0f8fad5b-d9cb-469f-a165-70867728950e''\<rparr>"

definition world_done :: world where
  "world_done = store_job id_a done_job init_world"

definition params_a :: params where
  "params_a =
     \<lparr>p_job_id = id_a, p_input_path = ''/workspace/ingest/0f8fad5b-d9cb-469f-a165-70867728950e'',
      p_config = Some [(''k'', JInt 1)], p_mode = ''batch'', p_gpu = ''auto'',
      p_render_pipeline = ''default'', p_scale = ''default''\<rparr>"

definition params_none :: params where
  "params_none = params_a\<lparr>p_config := None\<rparr>"

section \<open>Properties\<close>

subsection \<open>Evaluating the concrete inputs\<close>

lemmas fixtures =
  env_ok_def env_exit1_def env_nolaunch_def env_noopen_def env_nomkdir_def
  id_a_def id_b_def req_dir_def req_file_def req_missing_def req_notdir_def
  params_a_def params_none_def
  done_job_def world_done_def init_world_def queued_job_def

lemmas unfold_calls =
  start_processing_def stage_input_def os_path_isdir_def shutil_copy_def
  run_colmap_script_def run_colmap_script_try_def write_config_def build_cmd_def
  get_job_status_def list_jobs_def emit_def store_job_def path_join_def execute_def
  input_dir_def workspace_dir_def output_dir_def config_path_def

lemma roots:
  "INGEST_DIR = ''/workspace/ingest''"
  "COLMAP_WORKSPACE = ''/workspace/colmap_workspace''"
  "NERFSTUDIO_OUTPUT = ''/workspace/nerfstudio_dataset''"
  by (simp_all add: INGEST_DIR_def COLMAP_WORKSPACE_def NERFSTUDIO_OUTPUT_def
      WORKSPACE_BASE_def path_join_def)

subsection \<open>Identifiers and paths\<close>

lemma uuid_a: "uuid4_str id_a"
  by (simp add: uuid4_str_def uuid4_mask_def uuid4_char_def id_a_def is_hex_def)

lemma uuid_b: "uuid4_str id_b"
  by (simp add: uuid4_str_def uuid4_mask_def uuid4_char_def id_b_def is_hex_def)

lemma uuid4_length: "uuid4_str s \<Longrightarrow> length s = 36"
  by (auto simp: uuid4_str_def uuid4_mask_def dest: list_all2_lengthD)

lemma uuid4_char_no_slash: "uuid4_char m c \<Longrightarrow> m \<in> set uuid4_mask \<Longrightarrow> c \<noteq> CHR ''/''"
  by (auto simp: uuid4_char_def uuid4_mask_def is_hex_def split: if_splits)

lemma uuid4_no_slash: "uuid4_str s \<Longrightarrow> CHR ''/'' \<notin> set s"
proof
  assume u: "uuid4_str s" and "CHR ''/'' \<in> set s"
  then obtain i where i: "i < length s" "s ! i = CHR ''/''"
    by (auto simp: in_set_conv_nth)
  from u have l: "length uuid4_mask = length s"
    and "uuid4_char (uuid4_mask ! i) (s ! i)"
    using i by (auto simp: uuid4_str_def dest: list_all2_lengthD list_all2_nthD2)
  with i uuid4_char_no_slash[of "uuid4_mask ! i" "s ! i"] show False by simp
qed

lemma uuid4_head:
  assumes "uuid4_str s"
  shows "\<exists>x y r. s = x # y # r \<and> is_hex x \<and> is_hex y"
proof -
  from assms have l: "length s = 36" by (rule uuid4_length)
  then obtain x y r where s: "s = x # y # r"
    by (cases s; cases "tl s") auto
  from assms have "uuid4_char (uuid4_mask ! 0) (s ! 0)" "uuid4_char (uuid4_mask ! 1) (s ! 1)"
    using l by (auto simp: uuid4_str_def intro: list_all2_nthD2)
  then have "is_hex (s ! 0)" "is_hex (s ! 1)"
    by (simp_all add: uuid4_mask_def uuid4_char_def)
  with s show ?thesis by auto
qed

lemma path_join_uuid:
  assumes "uuid4_str s" "a \<noteq> []" "last a \<noteq> CHR ''/''"
  shows "path_join a s = a @ ''/'' @ s"
  using uuid4_head[OF assms(1)] assms(2,3)
  by (auto simp: path_join_def is_hex_def)

lemma uuid4_paths:
  assumes "uuid4_str s"
  shows "input_dir s = ''/workspace/ingest/'' @ s"
    and "workspace_dir s = ''/workspace/colmap_workspace/'' @ s"
    and "output_dir s = ''/workspace/nerfstudio_dataset/'' @ s"
  by (simp_all add: input_dir_def workspace_dir_def output_dir_def roots
      path_join_uuid[OF assms])

lemma config_path_eq:
  "config_path s = ''/workspace/colmap_workspace/config_'' @ s @ ''.json''"
  by (simp add: config_path_def roots path_join_def)

lemma uuid4_not_prefix_slash:
  "uuid4_str a \<Longrightarrow> uuid4_str b \<Longrightarrow> \<not> prefix (a @ ''/'') b"
  by (auto dest!: uuid4_length prefix_length_le)

lemma uuid4_not_under_config:
  assumes "uuid4_str a"
  shows "\<not> prefix (a @ ''/'') (''config_'' @ b @ ''.json'')"
  using uuid4_head[OF assms] by (auto simp: is_hex_def)

lemma uuid4_config_not_under:
  assumes "uuid4_str a" "uuid4_str b"
  shows "\<not> prefix (''config_'' @ b @ ''.json/'') a"
  using assms by (auto dest!: uuid4_length prefix_length_le)

lemma uuid4_config_neq:
  assumes "uuid4_str a" "uuid4_str b"
  shows "a \<noteq> ''config_'' @ b @ ''.json''"
  using assms by (auto dest!: uuid4_length)

lemma config_not_prefix:
  assumes "uuid4_str a" "uuid4_str b"
  shows "\<not> prefix (a @ ''.json/'') (b @ ''.json'')"
  using assms by (auto dest!: uuid4_length prefix_length_le)

lemma apart_sym: "apart p q \<Longrightarrow> apart q p"
  by (auto simp: apart_def)

lemma apart_dirs:
  assumes a: "uuid4_str a" and b: "uuid4_str b" and ne: "a \<noteq> b"
  shows "apart (input_dir a) (input_dir b)"
    and "apart (workspace_dir a) (workspace_dir b)"
    and "apart (output_dir a) (output_dir b)"
  using ne uuid4_not_prefix_slash[OF a b] uuid4_not_prefix_slash[OF b a]
  by (simp_all add: apart_def lies_under_def uuid4_paths[OF a] uuid4_paths[OF b])

lemma apart_roots:
  assumes a: "uuid4_str a" and b: "uuid4_str b"
  shows "apart (input_dir a) (workspace_dir b)"
    and "apart (input_dir a) (output_dir b)"
    and "apart (workspace_dir a) (output_dir b)"
    and "apart (input_dir a) (config_path b)"
    and "apart (output_dir a) (config_path b)"
  by (simp_all add: apart_def lies_under_def uuid4_paths[OF a] uuid4_paths[OF b]
      config_path_eq)

lemma apart_config:
  assumes a: "uuid4_str a" and b: "uuid4_str b" and ne: "a \<noteq> b"
  shows "apart (workspace_dir a) (config_path b)"
    and "apart (config_path a) (config_path b)"
  using ne uuid4_not_under_config[OF a, of b] uuid4_config_not_under[OF a b]
    uuid4_config_neq[OF a b] config_not_prefix[OF a b] config_not_prefix[OF b a]
  by (simp_all add: apart_def lies_under_def uuid4_paths[OF a] config_path_eq)

text \<open>
  Claim C9. For two different identifiers in the format of uuid4, the four paths derived
  from one (input staging directory, workspace directory, output directory, config file)
  and the four derived from the other are pairwise disjoint: no path of one job equals a
  path of the other or lies below it.
\<close>

theorem job_paths_disjoint:
  assumes a: "uuid4_str a" and b: "uuid4_str b" and ne: "a \<noteq> b"
  shows "\<forall>p \<in> set (job_paths a). \<forall>q \<in> set (job_paths b).
           p \<noteq> q \<and> \<not> lies_under p q \<and> \<not> lies_under q p"
proof -
  have ne': "b \<noteq> a" using ne by simp
  note d = apart_dirs[OF a b ne] apart_roots[OF a b] apart_config[OF a b ne]
    apart_roots[OF b a, THEN apart_sym] apart_config(1)[OF b a ne', THEN apart_sym]
  have "\<forall>p \<in> set (job_paths a). \<forall>q \<in> set (job_paths b). apart p q"
    using d by (simp add: job_paths_def)
  then show ?thesis by (simp add: apart_def)
qed

theorem job_paths_disjoint_witness:
  "uuid4_str id_a \<and> uuid4_str id_b \<and> id_a \<noteq> id_b \<and>
   workspace_dir id_a \<noteq> config_path id_b \<and>
   \<not> lies_under (config_path id_b) (workspace_dir id_a) \<and>
   \<not> lies_under (input_dir id_a) (input_dir id_b) \<and>
   \<not> lies_under (output_dir id_b) (output_dir id_a)"
proof -
  have ne: "id_a \<noteq> id_b" by (simp add: id_a_def id_b_def)
  from job_paths_disjoint[OF uuid_a uuid_b ne] uuid_a uuid_b ne
  show ?thesis by (simp add: job_paths_def)
qed

subsection \<open>The background task\<close>

text \<open>
  Claim C1. A call of run_colmap_script returns normally, whatever the environment does,
  and the record it leaves under the job identifier is fixed by the outcome: an exception
  while the config file is written, or while the process is launched, gives status failed
  with the text of the exception; exit code 0 gives status completed, the success message
  and the output directory of the job; any other exit code gives status failed with the
  captured standard error.
\<close>

theorem run_colmap_script_outcome:
  "fst (run_colmap_script env p w) = Inr () \<and>
   (\<forall>e w1. write_config env p w = (Inl e, w1) \<longrightarrow>
      PROCESSING_JOBS (snd (run_colmap_script env p w)) (p_job_id p) =
        Some \<lparr>status = ''failed'', message = str_exn e, output_path = None\<rparr>) \<and>
   (\<forall>cf w1 e. write_config env p w = (Inr cf, w1) \<and>
        subprocess_run env (build_cmd p cf) = Inl e \<longrightarrow>
      PROCESSING_JOBS (snd (run_colmap_script env p w)) (p_job_id p) =
        Some \<lparr>status = ''failed'', message = str_exn e, output_path = None\<rparr>) \<and>
   (\<forall>cf w1 r. write_config env p w = (Inr cf, w1) \<and>
        subprocess_run env (build_cmd p cf) = Inr r \<and> returncode r = 0 \<longrightarrow>
      PROCESSING_JOBS (snd (run_colmap_script env p w)) (p_job_id p) =
        Some \<lparr>status = ''completed'', message = ''Processing completed successfully'',
              output_path = Some (output_dir (p_job_id p))\<rparr>) \<and>
   (\<forall>cf w1 r. write_config env p w = (Inr cf, w1) \<and>
        subprocess_run env (build_cmd p cf) = Inr r \<and> returncode r \<noteq> 0 \<longrightarrow>
      PROCESSING_JOBS (snd (run_colmap_script env p w)) (p_job_id p) =
        Some \<lparr>status = ''failed'', message = stderr r, output_path = None\<rparr>)"
  by (auto simp: run_colmap_script_def run_colmap_script_try_def store_job_def emit_def
      Let_def split: prod.splits sum.splits)

lemma wc_ok:
  "write_config env_ok params_a init_world =
     (Inr (Some ''/workspace/colmap_workspace/config_0f8fad5b-d9cb-469f-a165-70867728950e.json''),
      \<lparr>PROCESSING_JOBS = Map.empty, background_tasks = [],
       events = [OpenW ''/workspace/colmap_workspace/config_0f8fad5b-d9cb-469f-a165-70867728950e.json'',
                 Write ''/workspace/colmap_workspace/config_0f8fad5b-d9cb-469f-a165-70867728950e.json''
                   (''{'' @ [CHR 0x22] @ ''k'' @ [CHR 0x22] @ '': 1}'')]\<rparr>)"
  by (simp add: write_config_def config_path_eq fixtures emit_def Let_def)

theorem run_colmap_script_outcome_witness:
  "PROCESSING_JOBS (snd (run_colmap_script env_ok params_a init_world)) id_a =
     Some \<lparr>status = ''completed'', message = ''Processing completed successfully'',
           output_path = Some ''/workspace/nerfstudio_dataset/0f8fad5b-d9cb-469f-a165-70867728950e''\<rparr> \<and>
   PROCESSING_JOBS (snd (run_colmap_script env_exit1 params_a init_world)) id_a =
     Some \<lparr>status = ''failed'', message = ''no images found'', output_path = None\<rparr> \<and>
   PROCESSING_JOBS (snd (run_colmap_script env_nolaunch params_a init_world)) id_a =
     Some \<lparr>status = ''failed'',
           message = ''[Errno 2] No such file or directory: '' @ [CHR 0x27] @ ''/workspace/colmap.sh'' @ [CHR 0x27],
           output_path = None\<rparr> \<and>
   PROCESSING_JOBS (snd (run_colmap_script env_noopen params_a init_world)) id_a =
     Some \<lparr>status = ''failed'', message = ''denied'', output_path = None\<rparr>"
proof -
  have w1: "write_config env_exit1 params_a init_world = write_config env_ok params_a init_world"
    and w2: "write_config env_nolaunch params_a init_world = write_config env_ok params_a init_world"
    by (simp_all add: write_config_def env_exit1_def env_nolaunch_def env_ok_def params_a_def Let_def)
  have w3: "write_config env_noopen params_a init_world =
      (Inl (OtherException ''PermissionError'' ''denied''), init_world)"
    by (simp add: write_config_def env_noopen_def env_ok_def params_a_def Let_def)
  have j: "p_job_id params_a = id_a" by (simp add: params_a_def)
  have o: "output_dir id_a = ''/workspace/nerfstudio_dataset/0f8fad5b-d9cb-469f-a165-70867728950e''"
    by (simp add: uuid4_paths[OF uuid_a]) (simp add: id_a_def)
  note t1 = run_colmap_script_outcome[of env_ok params_a init_world, THEN conjunct2,
      THEN conjunct2, THEN conjunct2, THEN conjunct1, rule_format, OF conjI, OF wc_ok]
  note t2 = run_colmap_script_outcome[of env_exit1 params_a init_world, THEN conjunct2,
      THEN conjunct2, THEN conjunct2, THEN conjunct2, rule_format, OF conjI, OF wc_ok[folded w1]]
  note t3 = run_colmap_script_outcome[of env_nolaunch params_a init_world, THEN conjunct2,
      THEN conjunct2, THEN conjunct1, rule_format, OF conjI, OF wc_ok[folded w2]]
  note t4 = run_colmap_script_outcome[of env_noopen params_a init_world, THEN conjunct2,
      THEN conjunct1, rule_format, OF w3]
  have c1: "subprocess_run env_ok (build_cmd params_a x) = Inr \<lparr>returncode = 0, stdout = ''done'', stderr = []\<rparr>" for x
    by (simp add: env_ok_def)
  have c2: "subprocess_run env_exit1 (build_cmd params_a x) = Inr \<lparr>returncode = 1, stdout = [], stderr = ''no images found''\<rparr>" for x
    by (simp add: env_exit1_def env_ok_def)
  have c3: "subprocess_run env_nolaunch (build_cmd params_a x) = Inl (FileNotFoundError ''/workspace/colmap.sh'')" for x
    by (simp add: env_nolaunch_def env_ok_def)
  from t1[of "\<lparr>returncode = 0, stdout = ''done'', stderr = []\<rparr>"] c1
    t2[of "\<lparr>returncode = 1, stdout = [], stderr = ''no images found''\<rparr>"] c2
    t3[of "FileNotFoundError ''/workspace/colmap.sh''"] c3 t4
  show ?thesis by (simp add: j o)
qed

subsection \<open>The upload endpoints\<close>

text \<open>
  Claim C10. The names File, Form, UploadFile and aiofiles are bound nowhere in the
  module, so both upload endpoints end in a NameError (the first name read is File) for
  every input, and they leave the state as it was: process_uploaded_files stores no job
  record, adds no background task and produces no JobStatus.
\<close>

theorem upload_endpoints_raise:
  "fst (upload_files env jid files w) = Inl (NameError ''File'') \<and>
   snd (upload_files env jid files w) = w \<and>
   fst (process_uploaded_files env jid files form w) = Inl (NameError ''File'') \<and>
   snd (process_uploaded_files env jid files form w) = w"
  by (simp add: upload_files_def process_uploaded_files_def upload_files_signature_def
      process_uploaded_files_signature_def load_name_def module_names_def builtin_names_def)

subsection \<open>What each operation does to the dictionary and to the pending tasks\<close>

lemma write_config_world:
  "write_config env p w = (x, w1) \<Longrightarrow>
     PROCESSING_JOBS w1 = PROCESSING_JOBS w \<and> background_tasks w1 = background_tasks w"
  by (auto simp: write_config_def emit_def Let_def split: option.splits if_splits sum.splits)

lemma write_config_events:
  "write_config env p w = (x, w1) \<Longrightarrow> filter is_run (events w1) = filter is_run (events w)"
  by (auto simp: write_config_def emit_def Let_def split: option.splits if_splits sum.splits)

lemma run_colmap_script_world:
  "\<exists>r. PROCESSING_JOBS (snd (run_colmap_script env p w)) = (PROCESSING_JOBS w)(p_job_id p \<mapsto> r) \<and>
       terminal (status r) \<and> output_ok r \<and>
       background_tasks (snd (run_colmap_script env p w)) = background_tasks w"
proof (cases "write_config env p w")
  case (Pair x w1)
  from write_config_world[OF Pair] show ?thesis
    using Pair
    by (cases x; cases "subprocess_run env (build_cmd p (projr x))")
       (auto simp: run_colmap_script_def run_colmap_script_try_def store_job_def emit_def
          terminal_def output_ok_def Let_def)
qed

lemma start_processing_world:
  "(PROCESSING_JOBS (snd (start_processing env jid req w)) = PROCESSING_JOBS w \<and>
    background_tasks (snd (start_processing env jid req w)) = background_tasks w \<and>
    isl (fst (start_processing env jid req w))) \<or>
   (PROCESSING_JOBS (snd (start_processing env jid req w)) = (PROCESSING_JOBS w)(jid \<mapsto> queued_job) \<and>
    (\<exists>p. background_tasks (snd (start_processing env jid req w)) = background_tasks w @ [p] \<and>
         p_job_id p = jid) \<and>
    \<not> isl (fst (start_processing env jid req w)))"
  by (auto simp: start_processing_def store_job_def emit_def queued_job_def Let_def
      split: option.splits)

lemma save_files_world:
  "save_files env d fs w = (x, w1) \<Longrightarrow>
     PROCESSING_JOBS w1 = PROCESSING_JOBS w \<and> background_tasks w1 = background_tasks w"
  by (induction env d fs w arbitrary: x w1 rule: save_files.induct)
     (auto simp: emit_def Let_def split: option.splits)

lemma upload_files_world:
  "PROCESSING_JOBS (snd (upload_files env jid fs w)) = PROCESSING_JOBS w \<and>
   background_tasks (snd (upload_files env jid fs w)) = background_tasks w"
  by (auto simp: upload_files_def Let_def emit_def split: option.splits prod.splits sum.splits
      dest!: save_files_world)

lemma process_uploaded_files_world:
  "PROCESSING_JOBS (snd (process_uploaded_files env jid fs form w)) = PROCESSING_JOBS w \<and>
   background_tasks (snd (process_uploaded_files env jid fs form w)) = background_tasks w"
  by (auto simp: process_uploaded_files_def Let_def emit_def
      split: option.splits prod.splits sum.splits dest!: save_files_world)

lemma remove_nth_distinct:
  assumes "distinct (map f xs)" "i < length xs"
  shows "distinct (map f (take i xs @ drop (Suc i) xs))"
    and "f (xs ! i) \<notin> f ` set (take i xs @ drop (Suc i) xs)"
proof -
  from assms(2) have "xs = take i xs @ xs ! i # drop (Suc i) xs"
    by (rule id_take_nth_drop)
  then have "distinct (map f (take i xs @ xs ! i # drop (Suc i) xs))"
    using assms(1) by simp
  then show "distinct (map f (take i xs @ drop (Suc i) xs))"
    and "f (xs ! i) \<notin> f ` set (take i xs @ drop (Suc i) xs)"
    by auto
qed

lemma remove_nth_subset: "set (take i xs @ drop (Suc i) xs) \<subseteq> set xs"
  by (auto dest: in_set_takeD in_set_dropD)

lemma execute_world:
  "execute env i w = w \<or>
   (i < length (background_tasks w) \<and>
    (\<exists>r. PROCESSING_JOBS (execute env i w) =
           (PROCESSING_JOBS w)(p_job_id (background_tasks w ! i) \<mapsto> r) \<and>
         terminal (status r) \<and> output_ok r) \<and>
    background_tasks (execute env i w) =
      take i (background_tasks w) @ drop (Suc i) (background_tasks w))"
proof (cases "i < length (background_tasks w)")
  case True
  let ?w = "w\<lparr>background_tasks :=
      take i (background_tasks w) @ drop (Suc i) (background_tasks w)\<rparr>"
  from run_colmap_script_world[of env "background_tasks w ! i" ?w] True
  show ?thesis by (auto simp: execute_def)
next
  case False
  then show ?thesis by (simp add: execute_def)
qed

lemma workers_append: "workers (ts @ us) w = workers us (workers ts w)"
  by (induction ts w rule: workers.induct) auto

lemma workers_invariant:
  assumes "\<And>env i w. P w \<Longrightarrow> P (execute env i w)" and "P w"
  shows "P (workers ts w)"
  using assms(2)
proof (induction ts w rule: workers.induct)
  case (1 w)
  then show ?case by simp
next
  case (2 env i ts w)
  from 2(1)[OF assms(1)[OF 2(2)]] show ?case by simp
qed

lemma get_job_status_world: "\<exists>ts. snd (get_job_status jid b1 b2 b3 w) = workers ts w"
proof -
  have 0: "w = workers [] w" by simp
  have 2: "workers b2 (workers b1 w) = workers (b1 @ b2) w"
    and 3: "workers b3 (workers b2 (workers b1 w)) = workers (b1 @ b2 @ b3) w"
    by (simp_all add: workers_append)
  show ?thesis
    unfolding get_job_status_def Let_def
    by (auto split: option.splits intro: exI[of _ "[]"] exI[of _ b1] exI[of _ "b1 @ b2"]
        exI[of _ "b1 @ b2 @ b3"] simp: workers_append)
qed

lemma run_actions_append: "run_actions w (as @ bs) = run_actions (run_actions w as) bs"
  by (induction as arbitrary: w) auto

lemma fresh_ids_append:
  "fresh_ids w (as @ bs) = (fresh_ids w as \<and> fresh_ids (run_actions w as) bs)"
  by (induction as arbitrary: w) auto

subsection \<open>The output path of a stored record\<close>

lemma execute_output_ok:
  assumes "\<forall>j r. PROCESSING_JOBS w j = Some r \<longrightarrow> output_ok r"
  shows "\<forall>j r. PROCESSING_JOBS (execute env i w) j = Some r \<longrightarrow> output_ok r"
  using execute_world[of env i w] assms by (auto split: if_splits)

lemma workers_output_ok:
  assumes "\<forall>j r. PROCESSING_JOBS w j = Some r \<longrightarrow> output_ok r"
  shows "\<forall>j r. PROCESSING_JOBS (workers ts w) j = Some r \<longrightarrow> output_ok r"
  using assms
  by (rule workers_invariant[where P = "\<lambda>w. \<forall>j r. PROCESSING_JOBS w j = Some r \<longrightarrow> output_ok r",
        rotated]) (rule execute_output_ok)

lemma step_output_ok:
  assumes "\<forall>j r. PROCESSING_JOBS w j = Some r \<longrightarrow> output_ok r"
  shows "\<forall>j r. PROCESSING_JOBS (step a w) j = Some r \<longrightarrow> output_ok r"
proof (cases a)
  case (Submit env jid req)
  have "output_ok queued_job" by (simp add: output_ok_def queued_job_def)
  with assms start_processing_world[of env jid req w] show ?thesis
    using Submit by (auto split: if_splits)
next
  case (Execute env i)
  with execute_output_ok[OF assms] show ?thesis by simp
next
  case (Status jid b1 b2 b3)
  from get_job_status_world[of jid b1 b2 b3 w] workers_output_ok[OF assms] Status
  show ?thesis by auto
next
  case Listing
  with assms show ?thesis by (simp add: list_jobs_def)
next
  case (Upload env jid fs)
  with assms show ?thesis by (simp add: upload_files_world)
next
  case (ProcessUpload env jid fs form)
  with assms show ?thesis by (simp add: process_uploaded_files_world)
qed

lemma run_actions_output_ok:
  "\<forall>j r. PROCESSING_JOBS w j = Some r \<longrightarrow> output_ok r \<Longrightarrow>
   \<forall>j r. PROCESSING_JOBS (run_actions w as) j = Some r \<longrightarrow> output_ok r"
proof (induction as arbitrary: w)
  case Nil
  then show ?case by simp
next
  case (Cons a as)
  from Cons.IH[OF step_output_ok[OF Cons.prems]] show ?case by simp
qed

text \<open>
  Claim C2. Every record found in the dictionary after any sequence of requests and
  background executions, started from the empty dictionary, has an output path exactly
  when its status is completed.
\<close>

theorem output_path_iff_completed:
  "PROCESSING_JOBS (run_actions init_world as) jid = Some r \<Longrightarrow>
     (output_path r \<noteq> None) = (status r = ''completed'')"
  using run_actions_output_ok[of init_world as]
  by (simp add: init_world_def output_ok_def)

lemma run_submit_execute:
  "PROCESSING_JOBS (run_actions init_world [Submit env_ok id_a req_dir, Execute env_exit1 0]) id_a =
     Some \<lparr>status = ''failed'', message = ''no images found'', output_path = None\<rparr>"
  by (simp add: unfold_calls fixtures roots Let_def)

lemma run_submit_only:
  "PROCESSING_JOBS (run_actions init_world [Submit env_ok id_a req_dir]) id_a = Some queued_job"
  by (simp add: unfold_calls fixtures roots Let_def)

lemma run_submit_complete:
  "PROCESSING_JOBS (run_actions init_world [Submit env_ok id_a req_dir, Execute env_ok 0]) id_a =
     Some done_job"
  by (simp add: unfold_calls fixtures roots Let_def)

theorem output_path_iff_completed_witness:
  "PROCESSING_JOBS (run_actions init_world [Submit env_ok id_a req_dir, Execute env_ok 0]) id_a =
     Some done_job \<and>
   output_path done_job \<noteq> None \<and> status done_job = ''completed'' \<and>
   PROCESSING_JOBS (run_actions init_world [Submit env_ok id_a req_dir]) id_a = Some queued_job \<and>
   output_path queued_job = None \<and> status queued_job \<noteq> ''completed''"
  using output_path_iff_completed[OF run_submit_complete]
    output_path_iff_completed[OF run_submit_only] run_submit_complete run_submit_only
  by (simp add: done_job_def queued_job_def)

subsection \<open>Terminal records stay\<close>

lemma pending_ok_iff:
  "pending_ok w \<longleftrightarrow>
     distinct (map p_job_id (background_tasks w)) \<and>
     (\<forall>p \<in> set (background_tasks w).
        \<exists>r. PROCESSING_JOBS w (p_job_id p) = Some r \<and> status r = ''queued'')"
  by (auto simp: pending_ok_def list_all_iff split: option.splits)

lemma submit_pending_ok:
  assumes ok: "pending_ok w" and fr: "PROCESSING_JOBS w jid = None"
  shows "pending_ok (snd (start_processing env jid req w))"
proof -
  from ok fr have nin: "jid \<notin> p_job_id ` set (background_tasks w)"
    by (auto simp: pending_ok_iff)
  from start_processing_world[of env jid req w] show ?thesis
  proof (elim disjE conjE exE)
    assume "PROCESSING_JOBS (snd (start_processing env jid req w)) = PROCESSING_JOBS w"
      "background_tasks (snd (start_processing env jid req w)) = background_tasks w"
    with ok show ?thesis by (simp add: pending_ok_iff)
  next
    fix p
    assume "PROCESSING_JOBS (snd (start_processing env jid req w)) =
        (PROCESSING_JOBS w)(jid \<mapsto> queued_job)"
      "background_tasks (snd (start_processing env jid req w)) = background_tasks w @ [p]"
      "p_job_id p = jid"
    with ok nin show ?thesis by (auto simp: pending_ok_iff queued_job_def)
  qed
qed

lemma execute_pending_ok:
  assumes ok: "pending_ok w"
  shows "pending_ok (execute env i w)"
proof (cases "i < length (background_tasks w)")
  case False
  with ok show ?thesis by (simp add: execute_def)
next
  case i: True
  let ?ts = "take i (background_tasks w) @ drop (Suc i) (background_tasks w)"
  let ?p = "background_tasks w ! i"
  from ok have d: "distinct (map p_job_id (background_tasks w))"
    by (simp add: pending_ok_iff)
  note r = remove_nth_distinct[OF d i] remove_nth_subset[of i "background_tasks w"]
  from execute_world[of env i w] show ?thesis
  proof (elim disjE conjE exE)
    assume "execute env i w = w"
    with ok show ?thesis by simp
  next
    fix r'
    assume j: "PROCESSING_JOBS (execute env i w) = (PROCESSING_JOBS w)(p_job_id ?p \<mapsto> r')"
      and t: "background_tasks (execute env i w) = ?ts"
    have "\<forall>p \<in> set ?ts. \<exists>r. ((PROCESSING_JOBS w)(p_job_id ?p \<mapsto> r')) (p_job_id p) = Some r
          \<and> status r = ''queued''"
    proof
      fix p assume p: "p \<in> set ?ts"
      with r(2) have "p_job_id p \<noteq> p_job_id ?p" by (metis imageI)
      moreover from p r(3) have "p \<in> set (background_tasks w)" by blast
      ultimately show "\<exists>r. ((PROCESSING_JOBS w)(p_job_id ?p \<mapsto> r')) (p_job_id p) = Some r
          \<and> status r = ''queued''"
        using ok by (auto simp: pending_ok_iff)
    qed
    with r(1) j t show ?thesis by (simp add: pending_ok_iff)
  qed
qed

lemma workers_pending_ok:
  assumes "pending_ok w"
  shows "pending_ok (workers ts w)"
  using assms
  by (rule workers_invariant[where P = pending_ok, rotated]) (rule execute_pending_ok)

lemma step_pending_ok:
  assumes "pending_ok w" "fresh_for w a"
  shows "pending_ok (step a w)"
proof (cases a)
  case (Submit env jid req)
  with assms submit_pending_ok[of w jid env req] show ?thesis by (simp add: fresh_for_def)
next
  case (Execute env i)
  with assms execute_pending_ok[of w env i] show ?thesis by simp
next
  case (Status jid b1 b2 b3)
  from get_job_status_world[of jid b1 b2 b3 w] workers_pending_ok[OF assms(1)] Status
  show ?thesis by auto
next
  case Listing
  with assms show ?thesis by (simp add: list_jobs_def)
next
  case (Upload env jid fs)
  with assms upload_files_world[of env jid fs w] show ?thesis by (simp add: pending_ok_iff)
next
  case (ProcessUpload env jid fs form)
  with assms process_uploaded_files_world[of env jid fs form w] show ?thesis
    by (simp add: pending_ok_iff)
qed

lemma execute_terminal_kept:
  assumes ok: "pending_ok w"
    and r: "PROCESSING_JOBS w jid = Some r" and t: "terminal (status r)"
  shows "PROCESSING_JOBS (execute env i w) jid = Some r"
  using execute_world[of env i w]
proof (elim disjE conjE exE)
  assume "execute env i w = w"
  with r show ?thesis by simp
next
  fix r'
  let ?p = "background_tasks w ! i"
  assume i: "i < length (background_tasks w)"
    and j: "PROCESSING_JOBS (execute env i w) = (PROCESSING_JOBS w)(p_job_id ?p \<mapsto> r')"
  from nth_mem[OF i] ok obtain q where
    "PROCESSING_JOBS w (p_job_id ?p) = Some q" "status q = ''queued''"
    unfolding pending_ok_iff by blast
  with r t have "p_job_id ?p \<noteq> jid" by (auto simp: terminal_def)
  with j r show ?thesis by simp
qed

lemma workers_terminal_kept:
  assumes "pending_ok w" "PROCESSING_JOBS w jid = Some r" "terminal (status r)"
  shows "PROCESSING_JOBS (workers ts w) jid = Some r"
proof -
  have "pending_ok (workers ts w) \<and> PROCESSING_JOBS (workers ts w) jid = Some r"
    using assms(1,2)
    by (intro workers_invariant[where P = "\<lambda>w. pending_ok w \<and> PROCESSING_JOBS w jid = Some r"])
       (auto intro: execute_pending_ok execute_terminal_kept[OF _ _ assms(3)])
  then show ?thesis by simp
qed

lemma step_terminal_kept:
  assumes ok: "pending_ok w" and fr: "fresh_for w a"
    and r: "PROCESSING_JOBS w jid = Some r" and t: "terminal (status r)"
  shows "PROCESSING_JOBS (step a w) jid = Some r"
proof (cases a)
  case (Submit env j req)
  with fr r have "j \<noteq> jid" by (auto simp: fresh_for_def)
  with start_processing_world[of env j req w] r Submit show ?thesis by auto
next
  case (Execute env i)
  with execute_terminal_kept[OF ok r t] show ?thesis by simp
next
  case (Status j b1 b2 b3)
  from get_job_status_world[of j b1 b2 b3 w] workers_terminal_kept[OF ok r t] Status
  show ?thesis by auto
next
  case Listing
  with r show ?thesis by (simp add: list_jobs_def)
next
  case (Upload env j fs)
  with r show ?thesis by (simp add: upload_files_world)
next
  case (ProcessUpload env j fs form)
  with r show ?thesis by (simp add: process_uploaded_files_world)
qed

lemma run_actions_pending_ok:
  "pending_ok w \<Longrightarrow> fresh_ids w as \<Longrightarrow> pending_ok (run_actions w as)"
proof (induction as arbitrary: w)
  case Nil
  then show ?case by simp
next
  case (Cons a as)
  from Cons.prems have "fresh_for w a" "fresh_ids (step a w) as" by simp_all
  with Cons.IH[of "step a w"] step_pending_ok[OF Cons.prems(1)] show ?case by simp
qed

lemma run_actions_terminal_kept:
  "pending_ok w \<Longrightarrow> fresh_ids w as \<Longrightarrow> PROCESSING_JOBS w jid = Some r \<Longrightarrow>
   terminal (status r) \<Longrightarrow> PROCESSING_JOBS (run_actions w as) jid = Some r"
proof (induction as arbitrary: w)
  case Nil
  then show ?case by simp
next
  case (Cons a as)
  from Cons.prems have f: "fresh_for w a" "fresh_ids (step a w) as" by simp_all
  from Cons.IH[OF step_pending_ok[OF Cons.prems(1) f(1)] f(2)
      step_terminal_kept[OF Cons.prems(1) f(1) Cons.prems(3,4)] Cons.prems(4)]
  show ?case by simp
qed

text \<open>
  Claim C3, as the code has it. The code checks no identifier against the dictionary, so
  monotonicity rests on the identifiers: in a run of the service in which every
  submission draws an identifier that is not in the dictionary at that moment, a record
  that has reached status completed or failed stays as it is through every later
  submission, background execution, status query and listing: its status never goes back
  to queued and never changes to the other terminal status.
\<close>

theorem terminal_status_monotonic:
  assumes "fresh_ids init_world (as @ bs)"
    and "PROCESSING_JOBS (run_actions init_world as) jid = Some r"
    and "terminal (status r)"
  shows "PROCESSING_JOBS (run_actions init_world (as @ bs)) jid = Some r"
proof -
  have p0: "pending_ok init_world" by (simp add: pending_ok_def init_world_def)
  from assms(1) have f: "fresh_ids init_world as" "fresh_ids (run_actions init_world as) bs"
    by (simp_all add: fresh_ids_append)
  from run_actions_terminal_kept[OF run_actions_pending_ok[OF p0 f(1)] f(2) assms(2,3)]
  show ?thesis by (simp add: run_actions_append)
qed

lemma fresh_run:
  "fresh_ids init_world
     ([Submit env_ok id_a req_dir, Execute env_exit1 0] @
      [Submit env_ok id_b req_file, Status id_a [] [(env_ok, 0)] [], Execute env_ok 0, Listing])"
  by (simp add: fresh_for_def unfold_calls fixtures roots Let_def)

theorem terminal_status_monotonic_witness:
  "fresh_ids init_world
     ([Submit env_ok id_a req_dir, Execute env_exit1 0] @
      [Submit env_ok id_b req_file, Status id_a [] [(env_ok, 0)] [], Execute env_ok 0, Listing]) \<and>
   PROCESSING_JOBS (run_actions init_world [Submit env_ok id_a req_dir, Execute env_exit1 0]) id_a =
     Some \<lparr>status = ''failed'', message = ''no images found'', output_path = None\<rparr> \<and>
   terminal ''failed'' \<and>
   PROCESSING_JOBS
     (run_actions init_world
        ([Submit env_ok id_a req_dir, Execute env_exit1 0] @
         [Submit env_ok id_b req_file, Status id_a [] [(env_ok, 0)] [], Execute env_ok 0,
          Listing])) id_a =
     Some \<lparr>status = ''failed'', message = ''no images found'', output_path = None\<rparr>"
proof -
  have t: "terminal (status \<lparr>status = ''failed'', message = ''no images found'',
      output_path = None\<rparr>)"
    by (simp add: terminal_def)
  from terminal_status_monotonic[OF fresh_run run_submit_execute t] fresh_run
    run_submit_execute t
  show ?thesis by simp
qed

text \<open>
  Claim C3, as the spec states it, fails: a submission that draws the identifier of a
  completed job puts the status of that job back to queued.
\<close>

theorem terminal_regression_counterexample:
  "PROCESSING_JOBS (run_actions init_world [Submit env_ok id_a req_dir, Execute env_ok 0]) id_a =
     Some \<lparr>status = ''completed'', message = ''Processing completed successfully'',
           output_path =
             Some ''/workspace/nerfstudio_dataset/0f8fad5b-d9cb-469f-a165-70867728950e''\<rparr> \<and>
   PROCESSING_JOBS
     (run_actions init_world
        [Submit env_ok id_a req_dir, Execute env_ok 0, Submit env_ok id_a req_file]) id_a =
     Some \<lparr>status = ''queued'', message = ''Job is queued for processing'',
           output_path = None\<rparr>"
  by (simp add: unfold_calls fixtures roots Let_def)

subsection \<open>Status queries\<close>

lemma execute_known:
  assumes "dom (PROCESSING_JOBS w) \<union> p_job_id ` set (background_tasks w) \<subseteq> S"
  shows "dom (PROCESSING_JOBS (execute env i w)) \<union>
           p_job_id ` set (background_tasks (execute env i w)) \<subseteq> S"
  using execute_world[of env i w]
proof (elim disjE conjE exE)
  assume "execute env i w = w"
  with assms show ?thesis by simp
next
  fix r
  let ?ts = "take i (background_tasks w) @ drop (Suc i) (background_tasks w)"
  let ?p = "background_tasks w ! i"
  assume i: "i < length (background_tasks w)"
    and j: "PROCESSING_JOBS (execute env i w) = (PROCESSING_JOBS w)(p_job_id ?p \<mapsto> r)"
    and t: "background_tasks (execute env i w) = ?ts"
  from nth_mem[OF i] assms have "p_job_id ?p \<in> S" by blast
  moreover from remove_nth_subset[of i "background_tasks w"] assms
  have "p_job_id ` set ?ts \<subseteq> S" by blast
  ultimately show ?thesis
    using assms unfolding j t by (auto simp: subset_iff dom_def split: if_splits)
qed

lemma workers_known:
  assumes "dom (PROCESSING_JOBS w) \<union> p_job_id ` set (background_tasks w) \<subseteq> S"
  shows "dom (PROCESSING_JOBS (workers ts w)) \<union>
           p_job_id ` set (background_tasks (workers ts w)) \<subseteq> S"
  using assms
  by (rule workers_invariant[where
        P = "\<lambda>w. dom (PROCESSING_JOBS w) \<union> p_job_id ` set (background_tasks w) \<subseteq> S", rotated])
     (rule execute_known)

lemma step_known:
  assumes "dom (PROCESSING_JOBS w) \<union> p_job_id ` set (background_tasks w) \<subseteq> S"
  shows "dom (PROCESSING_JOBS (step a w)) \<union> p_job_id ` set (background_tasks (step a w))
           \<subseteq> S \<union> set (submitted [a])"
proof (cases a)
  case (Submit env jid req)
  with assms start_processing_world[of env jid req w] show ?thesis
    by (auto simp: subset_iff dom_def split: if_splits)
next
  case (Execute env i)
  with execute_known[OF assms, of env i] show ?thesis by auto
next
  case (Status jid b1 b2 b3)
  from get_job_status_world[of jid b1 b2 b3 w] obtain ts where
    "snd (get_job_status jid b1 b2 b3 w) = workers ts w" by blast
  with workers_known[OF assms, of ts] Status show ?thesis by auto
next
  case Listing
  with assms show ?thesis by (auto simp: list_jobs_def)
next
  case (Upload env jid fs)
  with assms show ?thesis by (auto simp: upload_files_world)
next
  case (ProcessUpload env jid fs form)
  with assms show ?thesis by (auto simp: process_uploaded_files_world)
qed

lemma submitted_Cons: "set (submitted (a # as)) = set (submitted [a]) \<union> set (submitted as)"
  by (cases a) auto

lemma run_actions_known:
  "dom (PROCESSING_JOBS w) \<union> p_job_id ` set (background_tasks w) \<subseteq> S \<Longrightarrow>
   dom (PROCESSING_JOBS (run_actions w as)) \<union>
     p_job_id ` set (background_tasks (run_actions w as)) \<subseteq> S \<union> set (submitted as)"
proof (induction as arbitrary: w S)
  case Nil
  then show ?case by simp
next
  case (Cons a as)
  from Cons.IH[OF step_known[OF Cons.prems, of a]] show ?case
    unfolding submitted_Cons[of a as] by (simp add: Un_assoc)
qed

lemma never_submitted_absent:
  "jid \<notin> set (submitted as) \<Longrightarrow> PROCESSING_JOBS (run_actions init_world as) jid = None"
  using run_actions_known[of init_world "{}" as] by (auto simp: init_world_def)

lemma execute_present:
  "PROCESSING_JOBS w jid \<noteq> None \<Longrightarrow> PROCESSING_JOBS (execute env i w) jid \<noteq> None"
  using execute_world[of env i w] by auto

lemma workers_present:
  assumes "PROCESSING_JOBS w jid \<noteq> None"
  shows "PROCESSING_JOBS (workers ts w) jid \<noteq> None"
  using assms
  by (rule workers_invariant[where P = "\<lambda>w. PROCESSING_JOBS w jid \<noteq> None", rotated])
     (rule execute_present)

lemma get_job_status_present:
  assumes "PROCESSING_JOBS w jid \<noteq> None"
  shows "\<exists>r1 r2 r3.
           PROCESSING_JOBS (workers b1 w) jid = Some r1 \<and>
           PROCESSING_JOBS (workers (b1 @ b2) w) jid = Some r2 \<and>
           PROCESSING_JOBS (workers (b1 @ b2 @ b3) w) jid = Some r3 \<and>
           get_job_status jid b1 b2 b3 w =
             (Inr \<lparr>js_job_id = jid, js_status = status r1, js_message = Some (message r2),
                   js_output_path = output_path r3\<rparr>, workers (b1 @ b2 @ b3) w)"
proof -
  from workers_present[OF assms] obtain r1 r2 r3 where
    "PROCESSING_JOBS (workers b1 w) jid = Some r1"
    "PROCESSING_JOBS (workers (b1 @ b2) w) jid = Some r2"
    "PROCESSING_JOBS (workers (b1 @ b2 @ b3) w) jid = Some r3"
    by (metis option.exhaust)
  with assms show ?thesis
    by (simp add: get_job_status_def Let_def workers_append)
qed

text \<open>
  Claim C8, as the code has it. A status query for an identifier that is not in the
  dictionary fails with the HTTP error 404, Job not found, and changes nothing; an
  identifier that no submission of the run drew is not in the dictionary, so the query for
  it fails in this way and never returns a default or empty record. A query for an
  identifier that is in the dictionary returns the identifier with a status, a message and
  an output path, each read by a lookup of its own from the record stored at the moment
  of that lookup. When the record is the same at the three lookups, the response is that
  record; nothing keeps a worker thread from replacing the record between them.
\<close>

theorem get_job_status_contract:
  "(PROCESSING_JOBS w jid = None \<longrightarrow>
       get_job_status jid b1 b2 b3 w = (Inl (HTTPException 404 ''Job not found''), w)) \<and>
   (jid \<notin> set (submitted as) \<longrightarrow>
       fst (get_job_status jid b1 b2 b3 (run_actions init_world as)) =
         Inl (HTTPException 404 ''Job not found'')) \<and>
   (PROCESSING_JOBS w jid \<noteq> None \<longrightarrow>
      (\<exists>r1 r2 r3.
         PROCESSING_JOBS (workers b1 w) jid = Some r1 \<and>
         PROCESSING_JOBS (workers (b1 @ b2) w) jid = Some r2 \<and>
         PROCESSING_JOBS (workers (b1 @ b2 @ b3) w) jid = Some r3 \<and>
         get_job_status jid b1 b2 b3 w =
           (Inr \<lparr>js_job_id = jid, js_status = status r1, js_message = Some (message r2),
                 js_output_path = output_path r3\<rparr>, workers (b1 @ b2 @ b3) w))) \<and>
   (PROCESSING_JOBS w jid \<noteq> None \<and>
    PROCESSING_JOBS (workers b1 w) jid = Some r \<and>
    PROCESSING_JOBS (workers (b1 @ b2) w) jid = Some r \<and>
    PROCESSING_JOBS (workers (b1 @ b2 @ b3) w) jid = Some r \<longrightarrow>
      fst (get_job_status jid b1 b2 b3 w) =
        Inr \<lparr>js_job_id = jid, js_status = status r, js_message = Some (message r),
             js_output_path = output_path r\<rparr>)"
proof -
  have 1: "PROCESSING_JOBS w jid = None \<longrightarrow>
       get_job_status jid b1 b2 b3 w = (Inl (HTTPException 404 ''Job not found''), w)"
    by (simp add: get_job_status_def)
  have 2: "jid \<notin> set (submitted as) \<longrightarrow>
       fst (get_job_status jid b1 b2 b3 (run_actions init_world as)) =
         Inl (HTTPException 404 ''Job not found'')"
    using never_submitted_absent[of jid as] by (simp add: get_job_status_def)
  have 4: "fst (get_job_status jid b1 b2 b3 w) =
        Inr \<lparr>js_job_id = jid, js_status = status r, js_message = Some (message r),
             js_output_path = output_path r\<rparr>"
    if "PROCESSING_JOBS w jid \<noteq> None" "PROCESSING_JOBS (workers b1 w) jid = Some r"
      "PROCESSING_JOBS (workers (b1 @ b2) w) jid = Some r"
      "PROCESSING_JOBS (workers (b1 @ b2 @ b3) w) jid = Some r"
    using get_job_status_present[OF that(1), of b1 b2 b3] that(2-4) by auto
  from 1 2 4 get_job_status_present[of w jid b1 b2 b3] show ?thesis by blast
qed

lemma run_submit_world:
  "run_actions init_world [Submit env_ok id_a req_dir] =
     \<lparr>PROCESSING_JOBS = [id_a \<mapsto> queued_job],
      background_tasks =
        [\<lparr>p_job_id = id_a, p_input_path = input_dir id_a, p_config = Some [(''k'', JInt 1)],
          p_mode = ''batch'', p_gpu = ''auto'', p_render_pipeline = ''default'',
          p_scale = ''default''\<rparr>],
      events = [Makedirs (input_dir id_a), Copytree ''/data/scene'' (input_dir id_a)]\<rparr>"
  by (simp add: start_processing_def stage_input_def os_path_isdir_def store_job_def emit_def
      env_ok_def req_dir_def init_world_def queued_job_def Let_def)

lemma worker_completes:
  "PROCESSING_JOBS (execute env_ok 0 (run_actions init_world [Submit env_ok id_a req_dir]))
     id_a = Some done_job"
  unfolding run_submit_world
  by (simp add: unfold_calls fixtures roots Let_def)

theorem get_job_status_contract_witness:
  "PROCESSING_JOBS init_world id_a = None \<and>
   get_job_status id_a [] [] [] init_world =
     (Inl (HTTPException 404 ''Job not found''), init_world) \<and>
   id_b \<notin> set (submitted [Submit env_ok id_a req_dir, Execute env_ok 0]) \<and>
   fst (get_job_status id_b [] [(env_ok, 0)] []
          (run_actions init_world [Submit env_ok id_a req_dir, Execute env_ok 0])) =
     Inl (HTTPException 404 ''Job not found'') \<and>
   PROCESSING_JOBS (run_actions init_world [Submit env_ok id_a req_dir]) id_a \<noteq> None \<and>
   PROCESSING_JOBS (workers [(env_ok, 0)] (run_actions init_world [Submit env_ok id_a req_dir]))
     id_a = Some done_job \<and>
   fst (get_job_status id_a [(env_ok, 0)] [] []
          (run_actions init_world [Submit env_ok id_a req_dir])) =
     Inr \<lparr>js_job_id = id_a, js_status = ''completed'',
          js_message = Some ''Processing completed successfully'',
          js_output_path =
            Some ''/workspace/nerfstudio_dataset/0f8fad5b-d9cb-469f-a165-70867728950e''\<rparr>"
proof -
  let ?as = "[Submit env_ok id_a req_dir, Execute env_ok 0]"
  let ?w = "run_actions init_world [Submit env_ok id_a req_dir]"
  have n: "id_b \<notin> set (submitted ?as)" by (simp add: id_a_def id_b_def)
  have e: "PROCESSING_JOBS init_world id_a = None" by (simp add: init_world_def)
  have p: "PROCESSING_JOBS ?w id_a \<noteq> None" unfolding run_submit_only by simp
  have d: "PROCESSING_JOBS (workers [(env_ok, 0)] ?w) id_a = Some done_job"
    using worker_completes by simp
  have d': "PROCESSING_JOBS (workers ([(env_ok, 0)] @ []) ?w) id_a = Some done_job"
    "PROCESSING_JOBS (workers ([(env_ok, 0)] @ [] @ []) ?w) id_a = Some done_job"
    using d by simp_all
  note c1 = get_job_status_contract[where w = init_world and jid = id_a and ?b1.0 = "[]"
      and ?b2.0 = "[]" and ?b3.0 = "[]", THEN conjunct1, rule_format, OF e]
  note c2 = get_job_status_contract[where jid = id_b and as = ?as and ?b1.0 = "[]"
      and ?b2.0 = "[(env_ok, 0)]" and ?b3.0 = "[]", THEN conjunct2, THEN conjunct1,
      rule_format, OF n]
  note c4 = get_job_status_contract[where w = ?w and jid = id_a and ?b1.0 = "[(env_ok, 0)]"
      and ?b2.0 = "[]" and ?b3.0 = "[]" and r = done_job, THEN conjunct2, THEN conjunct2,
      THEN conjunct2, rule_format, OF conjI, OF p conjI, OF d conjI, OF d']
  from c1 c2 c4 n e p d show ?thesis by (simp add: done_job_def)
qed

text \<open>
  Claim C8, as the spec states it, fails in its snapshot part. While the job is queued, a
  query reads the status; the worker thread then stores the completed record; the query
  reads the message and the output path. The response has the status queued with the
  success message and an output path: the fields of no record that was ever stored.
\<close>

theorem torn_status_counterexample:
  "PROCESSING_JOBS (run_actions init_world [Submit env_ok id_a req_dir]) id_a =
     Some \<lparr>status = ''queued'', message = ''Job is queued for processing'',
           output_path = None\<rparr> \<and>
   fst (get_job_status id_a [] [(env_ok, 0)] []
          (run_actions init_world [Submit env_ok id_a req_dir])) =
     Inr \<lparr>js_job_id = id_a, js_status = ''queued'',
          js_message = Some ''Processing completed successfully'',
          js_output_path =
            Some ''/workspace/nerfstudio_dataset/0f8fad5b-d9cb-469f-a165-70867728950e''\<rparr> \<and>
   PROCESSING_JOBS
     (snd (get_job_status id_a [] [(env_ok, 0)] []
             (run_actions init_world [Submit env_ok id_a req_dir]))) id_a =
     Some \<lparr>status = ''completed'', message = ''Processing completed successfully'',
           output_path =
             Some ''/workspace/nerfstudio_dataset/0f8fad5b-d9cb-469f-a165-70867728950e''\<rparr>"
proof -
  let ?w = "run_actions init_world [Submit env_ok id_a req_dir]"
  have q: "PROCESSING_JOBS ?w id_a = Some queued_job" by (rule run_submit_only)
  have d: "PROCESSING_JOBS (execute env_ok 0 ?w) id_a = Some done_job"
    by (rule worker_completes)
  from q d show ?thesis
    by (simp add: get_job_status_def Let_def queued_job_def done_job_def)
qed

subsection \<open>Submission\<close>

text \<open>
  Claim C4. When the ingest directory can be created and the input can be staged (the
  input path is a directory whose copy succeeds, or an existing file whose copy succeeds),
  start_processing stores the queued record under the identifier it drew, adds one
  background task for that identifier and returns the identifier with the status queued.
  It launches no process: the processes run so far are the same before and after the
  call, and the pipeline of the job runs only when the pending task is executed later.
\<close>

theorem start_processing_returns_queued:
  assumes "makedirs_raises env (input_dir jid) = None"
    and "fst (stage_input env (input_path request) (input_dir jid)) = None"
  shows "fst (start_processing env jid request w) =
           Inr \<lparr>js_job_id = jid, js_status = ''queued'',
                js_message = Some ''Job is queued for processing'', js_output_path = None\<rparr> \<and>
         PROCESSING_JOBS (snd (start_processing env jid request w)) jid = Some queued_job \<and>
         background_tasks (snd (start_processing env jid request w)) =
           background_tasks w @
             [\<lparr>p_job_id = jid, p_input_path = input_dir jid, p_config = config request,
               p_mode = mode request, p_gpu = gpu request,
               p_render_pipeline = render_pipeline request, p_scale = scale request\<rparr>] \<and>
         filter is_run (events (snd (start_processing env jid request w))) =
           filter is_run (events w)"
  using assms
  by (cases "os_path_isdir env (input_path request)")
     (simp_all add: start_processing_def stage_input_def store_job_def emit_def
        queued_job_def Let_def)

lemma stage_dir_ok: "fst (stage_input env_ok (input_path req_dir) (input_dir id_a)) = None"
  by (simp add: stage_input_def os_path_isdir_def env_ok_def req_dir_def)

lemma stage_file_ok: "fst (stage_input env_ok (input_path req_file) (input_dir id_a)) = None"
  by (simp add: stage_input_def os_path_isdir_def shutil_copy_def env_ok_def req_dir_def
      req_file_def)

theorem start_processing_returns_queued_witness:
  "makedirs_raises env_ok (input_dir id_a) = None \<and>
   fst (stage_input env_ok (input_path req_dir) (input_dir id_a)) = None \<and>
   fst (stage_input env_ok (input_path req_file) (input_dir id_a)) = None \<and>
   fst (start_processing env_ok id_a req_dir init_world) =
     Inr \<lparr>js_job_id = id_a, js_status = ''queued'',
          js_message = Some ''Job is queued for processing'', js_output_path = None\<rparr> \<and>
   PROCESSING_JOBS (snd (start_processing env_ok id_a req_dir init_world)) id_a =
     Some queued_job \<and>
   map p_job_id (background_tasks (snd (start_processing env_ok id_a req_file init_world))) =
     [id_a] \<and>
   filter is_run (events (snd (start_processing env_ok id_a req_dir init_world))) = []"
proof -
  have m: "makedirs_raises env_ok (input_dir id_a) = None" by (simp add: env_ok_def)
  from start_processing_returns_queued[OF m stage_dir_ok, of init_world]
    start_processing_returns_queued[OF m stage_file_ok, of init_world] m stage_dir_ok
    stage_file_ok
  show ?thesis by (simp add: init_world_def)
qed

text \<open>
  Claim C5. When the input path does not exist, start_processing raises: it returns no
  JobStatus and so no identifier, it leaves the dictionary as it was and adds no
  background task. Whenever the ingest directory could be created, the exception is the
  one the copy meets at the missing source: FileNotFoundError for an absent entry, and
  the error the system gives for a path that cannot be resolved otherwise.
\<close>

theorem start_processing_missing_input:
  assumes "stat_path env (input_path request) = Inl e"
  shows "isl (fst (start_processing env jid request w)) \<and>
         (makedirs_raises env (input_dir jid) = None \<longrightarrow>
            fst (start_processing env jid request w) = Inl e) \<and>
         PROCESSING_JOBS (snd (start_processing env jid request w)) = PROCESSING_JOBS w \<and>
         background_tasks (snd (start_processing env jid request w)) = background_tasks w"
  using assms
  by (simp add: start_processing_def stage_input_def os_path_isdir_def
      shutil_copy_def emit_def Let_def split: option.splits)

theorem start_processing_missing_input_witness:
  "stat_path env_ok (input_path req_missing) = Inl (FileNotFoundError ''/data/nothing'') \<and>
   stat_path env_ok (input_path req_notdir) = Inl (NotADirectoryError ''/data/a.png/x'') \<and>
   makedirs_raises env_ok (input_dir id_a) = None \<and>
   fst (start_processing env_ok id_a req_missing world_done) =
     Inl (FileNotFoundError ''/data/nothing'') \<and>
   fst (start_processing env_ok id_a req_notdir world_done) =
     Inl (NotADirectoryError ''/data/a.png/x'') \<and>
   PROCESSING_JOBS (snd (start_processing env_ok id_a req_missing world_done)) =
     PROCESSING_JOBS world_done \<and>
   background_tasks (snd (start_processing env_ok id_a req_missing world_done)) = [] \<and>
   isl (fst (start_processing env_nomkdir id_b req_missing init_world))"
proof -
  have k: "stat_path env_ok (input_path req_missing) = Inl (FileNotFoundError ''/data/nothing'')"
    by (simp add: env_ok_def req_missing_def req_dir_def)
  have k2: "stat_path env_ok (input_path req_notdir) = Inl (NotADirectoryError ''/data/a.png/x'')"
    by (simp add: env_ok_def req_notdir_def req_dir_def)
  have k': "stat_path env_nomkdir (input_path req_missing) =
      Inl (FileNotFoundError ''/data/nothing'')"
    by (simp add: env_nomkdir_def env_ok_def req_missing_def req_dir_def)
  have m: "makedirs_raises env_ok (input_dir id_a) = None" by (simp add: env_ok_def)
  from start_processing_missing_input[OF k, of id_a world_done]
    start_processing_missing_input[OF k2, of id_a world_done]
    start_processing_missing_input[OF k', of id_b init_world] k k2 m
  show ?thesis
    by (simp add: world_done_def store_job_def init_world_def)
qed

text \<open>
  Claim C7, as the code has it. The module has no duplicate check and no error for it:
  start_processing stores the queued record with a plain dictionary assignment. When the
  identifier is already in the dictionary and staging succeeds, the call returns normally
  and the queued record replaces the record that was there.
\<close>

theorem start_processing_overwrites:
  assumes "PROCESSING_JOBS w jid = Some r"
    and "makedirs_raises env (input_dir jid) = None"
    and "fst (stage_input env (input_path request) (input_dir jid)) = None"
  shows "\<not> isl (fst (start_processing env jid request w)) \<and>
         PROCESSING_JOBS (snd (start_processing env jid request w)) jid = Some queued_job"
  using assms(2,3)
  by (cases "os_path_isdir env (input_path request)")
     (simp_all add: start_processing_def stage_input_def store_job_def emit_def
        queued_job_def Let_def)

theorem start_processing_overwrites_witness:
  "PROCESSING_JOBS world_done id_a = Some done_job \<and>
   makedirs_raises env_ok (input_dir id_a) = None \<and>
   fst (stage_input env_ok (input_path req_dir) (input_dir id_a)) = None \<and>
   \<not> isl (fst (start_processing env_ok id_a req_dir world_done)) \<and>
   PROCESSING_JOBS (snd (start_processing env_ok id_a req_dir world_done)) id_a =
     Some queued_job"
proof -
  have d: "PROCESSING_JOBS world_done id_a = Some done_job"
    by (simp add: world_done_def store_job_def)
  have m: "makedirs_raises env_ok (input_dir id_a) = None" by (simp add: env_ok_def)
  from start_processing_overwrites[OF d m stage_dir_ok] d m stage_dir_ok
  show ?thesis by simp
qed

text \<open>
  Claim C7, as the spec states it, fails: submitting under the identifier of a completed
  job raises nothing and replaces the completed record by the queued one.
\<close>

theorem duplicate_id_counterexample:
  "PROCESSING_JOBS world_done id_a = Some done_job \<and>
   status done_job = ''completed'' \<and>
   fst (start_processing env_ok id_a req_dir world_done) =
     Inr \<lparr>js_job_id = id_a, js_status = ''queued'',
          js_message = Some ''Job is queued for processing'', js_output_path = None\<rparr> \<and>
   PROCESSING_JOBS (snd (start_processing env_ok id_a req_dir world_done)) id_a =
     Some \<lparr>status = ''queued'', message = ''Job is queued for processing'',
           output_path = None\<rparr>"
  by (simp add: unfold_calls fixtures roots Let_def)

subsection \<open>The config file\<close>

lemma dirname_join:
  assumes "CHR ''/'' \<notin> set b"
  shows "dirname (a @ ''/'' @ b) = a"
proof -
  have "dropWhile (\<lambda>c. c \<noteq> CHR ''/'') (rev b @ CHR ''/'' # rev a) =
        dropWhile (\<lambda>c. c \<noteq> CHR ''/'') (CHR ''/'' # rev a)"
    using assms by (intro dropWhile_append2) auto
  then show ?thesis by (simp add: dirname_def)
qed

lemma config_path_join:
  "config_path jid = COLMAP_WORKSPACE @ ''/'' @ (''config_'' @ jid @ ''.json'')"
  by (simp add: config_path_def roots path_join_def)

lemma dirname_config_path:
  "uuid4_str jid \<Longrightarrow> dirname (config_path jid) = COLMAP_WORKSPACE"
  unfolding config_path_join by (rule dirname_join) (auto dest: uuid4_no_slash)

lemma workspace_dir_join:
  "uuid4_str jid \<Longrightarrow> workspace_dir jid = COLMAP_WORKSPACE @ ''/'' @ jid"
  by (simp add: workspace_dir_def path_join_uuid roots)

lemma dirname_workspace_dir:
  "uuid4_str jid \<Longrightarrow> dirname (workspace_dir jid) = COLMAP_WORKSPACE"
  by (simp only: workspace_dir_join) (rule dirname_join, erule uuid4_no_slash)

lemma config_not_in_workspace:
  "uuid4_str jid \<Longrightarrow> \<not> lies_under (config_path jid) (workspace_dir jid)"
  using uuid4_not_under_config[of jid jid]
  by (simp add: lies_under_def uuid4_paths config_path_eq)

lemma config_path_inj: "(config_path a = config_path b) = (a = b)"
  by (simp add: config_path_eq)

text \<open>
  Claim C6, as the code has it. A job whose config is a non-empty dictionary has it
  written to the file config_ID.json, ID its identifier, directly in the directory
  /workspace/colmap_workspace that all jobs share: beside the workspace directory of the
  job, not inside it, under a name that differs for different identifiers. When opening
  and serialising succeed, the file is written before the process is launched and the
  command is the fixed fourteen arguments followed by --config and the path of the file.
  When opening or serialising raises, no process is launched and the job is recorded as
  failed. A job whose config is missing or empty has no file written, and its command is
  the fourteen arguments alone.
\<close>

theorem config_file_beside_workspace:
  "(\<forall>c txt. p_config p = Some c \<and> c \<noteq> [] \<and>
        open_raises env (config_path (p_job_id p)) = None \<and> json_dump env c = Inr txt \<longrightarrow>
      write_config env p w =
        (Inr (Some (config_path (p_job_id p))),
         emit (Write (config_path (p_job_id p)) txt) (emit (OpenW (config_path (p_job_id p))) w)) \<and>
      (\<forall>r. subprocess_run env (build_cmd p (Some (config_path (p_job_id p)))) = Inr r \<longrightarrow>
         events (snd (run_colmap_script env p w)) =
           events w @ [OpenW (config_path (p_job_id p)), Write (config_path (p_job_id p)) txt,
                       Run (build_cmd p None @ [''--config'', config_path (p_job_id p)])])) \<and>
   (\<forall>c. p_config p = Some c \<and> c \<noteq> [] \<and>
        (open_raises env (config_path (p_job_id p)) \<noteq> None \<or> isl (json_dump env c)) \<longrightarrow>
      filter is_run (events (snd (run_colmap_script env p w))) = filter is_run (events w) \<and>
      (\<exists>m. PROCESSING_JOBS (snd (run_colmap_script env p w)) (p_job_id p) =
             Some \<lparr>status = ''failed'', message = m, output_path = None\<rparr>)) \<and>
   (p_config p = None \<or> p_config p = Some [] \<longrightarrow>
      write_config env p w = (Inr None, w) \<and>
      (\<forall>r. subprocess_run env (build_cmd p None) = Inr r \<longrightarrow>
         events (snd (run_colmap_script env p w)) = events w @ [Run (build_cmd p None)])) \<and>
   build_cmd p None =
     [''/workspace/colmap.sh'', (if p_mode p = ''batch'' then ''--batch'' else ''--daemon''),
      ''--ingest-dir'', p_input_path p,
      ''--colmap-workspace'', workspace_dir (p_job_id p),
      ''--nerfstudio-output'', output_dir (p_job_id p),
      ''--gpu'', p_gpu p, ''--render-pipeline'', p_render_pipeline p, ''--scale'', p_scale p] \<and>
   (uuid4_str jid \<longrightarrow>
      dirname (config_path jid) = COLMAP_WORKSPACE \<and>
      dirname (workspace_dir jid) = COLMAP_WORKSPACE \<and>
      \<not> lies_under (config_path jid) (workspace_dir jid)) \<and>
   (config_path a = config_path b) = (a = b)"
proof -
  have 1: "write_config env p w =
        (Inr (Some (config_path (p_job_id p))),
         emit (Write (config_path (p_job_id p)) t) (emit (OpenW (config_path (p_job_id p))) w))"
    if "p_config p = Some c" "c \<noteq> []" "open_raises env (config_path (p_job_id p)) = None"
      "json_dump env c = Inr t" for c t
    using that by (simp add: write_config_def Let_def)
  have 2: "events (snd (run_colmap_script env p w)) =
           events w @ [OpenW (config_path (p_job_id p)), Write (config_path (p_job_id p)) t,
                       Run (build_cmd p None @ [''--config'', config_path (p_job_id p)])]"
    if "p_config p = Some c" "c \<noteq> []" "open_raises env (config_path (p_job_id p)) = None"
      "json_dump env c = Inr t"
      "subprocess_run env (build_cmd p (Some (config_path (p_job_id p)))) = Inr r" for c t r
    using that 1[OF that(1-4)]
    by (simp add: run_colmap_script_def run_colmap_script_try_def Let_def emit_def store_job_def
        build_cmd_def)
  have 3: "filter is_run (events (snd (run_colmap_script env p w))) = filter is_run (events w) \<and>
      (\<exists>m. PROCESSING_JOBS (snd (run_colmap_script env p w)) (p_job_id p) =
             Some \<lparr>status = ''failed'', message = m, output_path = None\<rparr>)"
    if "p_config p = Some c" "c \<noteq> []"
      "open_raises env (config_path (p_job_id p)) \<noteq> None \<or> isl (json_dump env c)" for c
  proof -
    from that have "\<exists>e w1. write_config env p w = (Inl e, w1)"
      by (cases "open_raises env (config_path (p_job_id p))"; cases "json_dump env c")
         (auto simp: write_config_def Let_def)
    then obtain e w1 where wc: "write_config env p w = (Inl e, w1)" by blast
    from write_config_events[OF wc] wc show ?thesis
      by (simp add: run_colmap_script_def run_colmap_script_try_def store_job_def)
  qed
  have 4: "write_config env p w = (Inr None, w)" if "p_config p = None \<or> p_config p = Some []"
    using that by (auto simp: write_config_def)
  have 5: "events (snd (run_colmap_script env p w)) = events w @ [Run (build_cmd p None)]"
    if "p_config p = None \<or> p_config p = Some []" "subprocess_run env (build_cmd p None) = Inr r"
    for r
    using that(2) 4[OF that(1)]
    by (simp add: run_colmap_script_def run_colmap_script_try_def Let_def emit_def store_job_def)
  have 6: "build_cmd p None =
     [''/workspace/colmap.sh'', (if p_mode p = ''batch'' then ''--batch'' else ''--daemon''),
      ''--ingest-dir'', p_input_path p,
      ''--colmap-workspace'', workspace_dir (p_job_id p),
      ''--nerfstudio-output'', output_dir (p_job_id p),
      ''--gpu'', p_gpu p, ''--render-pipeline'', p_render_pipeline p, ''--scale'', p_scale p]"
    by (simp add: build_cmd_def)
  from 1 2 3 4 5 6 dirname_config_path[of jid] dirname_workspace_dir[of jid]
    config_not_in_workspace[of jid] config_path_inj[of a b]
  show ?thesis by blast
qed

lemma config_path_a:
  "config_path id_a =
     ''/workspace/colmap_workspace/config_0f8fad5b-d9cb-469f-a165-70867728950e.json''"
  by (simp add: config_path_eq id_a_def)

lemma json_a: "json_dump env_ok [(''k'', JInt 1)] = Inr (''{'' @ [CHR 0x22] @ ''k'' @ [CHR 0x22] @ '': 1}'')"
  by (simp add: env_ok_def)

theorem config_file_beside_workspace_witness:
  "events (snd (run_colmap_script env_ok params_a init_world)) =
     [OpenW (config_path id_a),
      Write (config_path id_a) (''{'' @ [CHR 0x22] @ ''k'' @ [CHR 0x22] @ '': 1}''),
      Run (build_cmd params_a None @ [''--config'', config_path id_a])] \<and>
   filter is_run (events (snd (run_colmap_script env_noopen params_a init_world))) = [] \<and>
   write_config env_ok params_none init_world = (Inr None, init_world) \<and>
   events (snd (run_colmap_script env_ok params_none init_world)) =
     [Run (build_cmd params_none None)] \<and>
   length (build_cmd params_none None) = 14 \<and>
   dirname (config_path id_a) = COLMAP_WORKSPACE \<and>
   dirname (workspace_dir id_a) = COLMAP_WORKSPACE \<and>
   \<not> lies_under (config_path id_a) (workspace_dir id_a)"
proof -
  have j: "p_job_id params_a = id_a" by (simp add: params_a_def)
  have c: "p_config params_a = Some [(''k'', JInt 1)] \<and> [(''k'', JInt 1)] \<noteq> [] \<and>
      open_raises env_ok (config_path (p_job_id params_a)) = None \<and>
      json_dump env_ok [(''k'', JInt 1)] = Inr (''{'' @ [CHR 0x22] @ ''k'' @ [CHR 0x22] @ '': 1}'')"
    by (simp add: params_a_def env_ok_def)
  have r: "subprocess_run env_ok x = Inr \<lparr>returncode = 0, stdout = ''done'', stderr = []\<rparr>" for x
    by (simp add: env_ok_def)
  have c': "p_config params_a = Some [(''k'', JInt 1)] \<and> [(''k'', JInt 1)] \<noteq> [] \<and>
      (open_raises env_noopen (config_path (p_job_id params_a)) \<noteq> None \<or>
       isl (json_dump env_noopen [(''k'', JInt 1)]))"
    by (simp add: params_a_def env_noopen_def env_ok_def)
  have n: "p_config params_none = None \<or> p_config params_none = Some []"
    by (simp add: params_none_def)
  note t1 = config_file_beside_workspace[where p = params_a and env = env_ok and w = init_world,
      THEN conjunct1, rule_format, OF c, THEN conjunct2, rule_format, OF r]
  note t2 = config_file_beside_workspace[where p = params_a and env = env_noopen and
      w = init_world, THEN conjunct2, THEN conjunct1, rule_format, OF c', THEN conjunct1]
  note t3 = config_file_beside_workspace[where p = params_none and env = env_ok and
      w = init_world, THEN conjunct2, THEN conjunct2, THEN conjunct1, rule_format, OF n]
  note t4 = config_file_beside_workspace[where p = params_none,
      THEN conjunct2, THEN conjunct2, THEN conjunct2, THEN conjunct1]
  note t5 = config_file_beside_workspace[where jid = id_a,
      THEN conjunct2, THEN conjunct2, THEN conjunct2, THEN conjunct2, THEN conjunct1,
      rule_format, OF uuid_a]
  have l: "length (build_cmd params_none None) = 14" by (subst t4) simp
  from t1 t2 t3[THEN conjunct1] t3[THEN conjunct2, rule_format, OF r] l t5
  show ?thesis by (simp add: j init_world_def)
qed

text \<open>
  Claim C6, as the spec states it, fails twice. The file of a job with a non-empty config
  is not inside a location of the job's own: it is below none of the three directories of
  the job, and the directory that holds it is the one that holds the config file and the
  workspace directory of every other job. And a non-empty config does not always end in
  a file and a config argument: when the file cannot be opened, nothing is written and no
  command is run.
\<close>

theorem config_file_counterexample:
  "p_config params_a = Some [(''k'', JInt 1)] \<and> p_job_id params_a = id_a \<and>
   events (snd (run_colmap_script env_ok params_a init_world)) =
     [OpenW ''/workspace/colmap_workspace/config_0f8fad5b-d9cb-469f-a165-70867728950e.json'',
      Write ''/workspace/colmap_workspace/config_0f8fad5b-d9cb-469f-a165-70867728950e.json''
        (''{'' @ [CHR 0x22] @ ''k'' @ [CHR 0x22] @ '': 1}''),
      Run [''/workspace/colmap.sh'', ''--batch'',
           ''--ingest-dir'', ''/workspace/ingest/0f8fad5b-d9cb-469f-a165-70867728950e'',
           ''--colmap-workspace'', ''/workspace/colmap_workspace/0f8fad5b-d9cb-469f-a165-70867728950e'',
           ''--nerfstudio-output'', ''/workspace/nerfstudio_dataset/0f8fad5b-d9cb-469f-a165-70867728950e'',
           ''--gpu'', ''auto'', ''--render-pipeline'', ''default'', ''--scale'', ''default'',
           ''--config'', ''/workspace/colmap_workspace/config_0f8fad5b-d9cb-469f-a165-70867728950e.json'']] \<and>
   config_path id_a =
     ''/workspace/colmap_workspace/config_0f8fad5b-d9cb-469f-a165-70867728950e.json'' \<and>
   \<not> lies_under (config_path id_a) (workspace_dir id_a) \<and>
   \<not> lies_under (config_path id_a) (input_dir id_a) \<and>
   \<not> lies_under (config_path id_a) (output_dir id_a) \<and>
   dirname (config_path id_a) = ''/workspace/colmap_workspace'' \<and>
   dirname (config_path id_b) = ''/workspace/colmap_workspace'' \<and>
   dirname (workspace_dir id_b) = ''/workspace/colmap_workspace'' \<and>
   events (snd (run_colmap_script env_noopen params_a init_world)) = [] \<and>
   PROCESSING_JOBS (snd (run_colmap_script env_noopen params_a init_world)) id_a =
     Some \<lparr>status = ''failed'', message = ''denied'', output_path = None\<rparr>"
proof -
  have e1: "events (snd (run_colmap_script env_ok params_a init_world)) =
     [OpenW ''/workspace/colmap_workspace/config_0f8fad5b-d9cb-469f-a165-70867728950e.json'',
      Write ''/workspace/colmap_workspace/config_0f8fad5b-d9cb-469f-a165-70867728950e.json''
        (''{'' @ [CHR 0x22] @ ''k'' @ [CHR 0x22] @ '': 1}''),
      Run [''/workspace/colmap.sh'', ''--batch'',
           ''--ingest-dir'', ''/workspace/ingest/0f8fad5b-d9cb-469f-a165-70867728950e'',
           ''--colmap-workspace'', ''/workspace/colmap_workspace/0f8fad5b-d9cb-469f-a165-70867728950e'',
           ''--nerfstudio-output'', ''/workspace/nerfstudio_dataset/0f8fad5b-d9cb-469f-a165-70867728950e'',
           ''--gpu'', ''auto'', ''--render-pipeline'', ''default'', ''--scale'', ''default'',
           ''--config'', ''/workspace/colmap_workspace/config_0f8fad5b-d9cb-469f-a165-70867728950e.json'']]"
    by (simp add: unfold_calls fixtures roots Let_def)
  have e2: "events (snd (run_colmap_script env_noopen params_a init_world)) = []"
    and e3: "PROCESSING_JOBS (snd (run_colmap_script env_noopen params_a init_world)) id_a =
     Some \<lparr>status = ''failed'', message = ''denied'', output_path = None\<rparr>"
    by (simp_all add: unfold_calls fixtures roots Let_def)
  have p: "p_config params_a = Some [(''k'', JInt 1)]" "p_job_id params_a = id_a"
    by (simp_all add: params_a_def)
  note u = apart_roots(4,5)[OF uuid_a uuid_a, unfolded apart_def]
  from e1 e2 e3 p config_path_a config_not_in_workspace[OF uuid_a] u
    dirname_config_path[OF uuid_a] dirname_config_path[OF uuid_b]
    dirname_workspace_dir[OF uuid_b]
  show ?thesis by (simp add: roots)
qed

end
